theory Spec2Isabelle
  imports Main
begin

section \<open>JavaScript values\<close>

text \<open>
  The values that travel through the Cloud Functions: parsed JSON bodies, callable
  payloads and stored document fields. An object is the list of its own properties,
  as \<^verbatim>\<open>JSON.parse\<close> builds it. A number is carried as the text JavaScript prints for
  it (\<^verbatim>\<open>String(n)\<close>, so zero is \<^verbatim>\<open>0\<close> and 1e21 is \<^verbatim>\<open>1e+21\<close>): the code only tests
  numbers for truthiness, prints them and passes them on. A possibly \<^verbatim>\<open>undefined\<close>
  value is a \<open>jv option\<close>. A string is the list of its code units; every literal of
  the program lies below 256.
\<close>

datatype jv =
    JNull
  | JBool bool
  | JNum string
  | JStr string
  | JArr "jv list"
  | JObj "(string \<times> jv) list"

text \<open>Truthiness, as \<^verbatim>\<open>!x\<close>, \<^verbatim>\<open>x || y\<close> and \<^verbatim>\<open>x && y\<close> test it.\<close>

fun truthy :: "jv option \<Rightarrow> bool" where
  "truthy None = False"
| "truthy (Some JNull) = False"
| "truthy (Some (JBool b)) = b"
| "truthy (Some (JNum t)) = (t \<noteq> ''0'')"
| "truthy (Some (JStr s)) = (s \<noteq> [])"
| "truthy (Some (JArr xs)) = True"
| "truthy (Some (JObj kvs)) = True"

definition js_or :: "jv option \<Rightarrow> jv option \<Rightarrow> jv option" where
  "js_or a b = (if truthy a then a else b)"

text \<open>The decimal digits of an HTTP status, as \<^verbatim>\<open>`HTTP ${res.status}`\<close> prints it.\<close>

fun show_nat :: "nat \<Rightarrow> string" where
  "show_nat n =
     (if n < 10 then [''0123456789'' ! n]
      else show_nat (n div 10) @ [''0123456789'' ! (n mod 10)])"

declare show_nat.simps [simp del]

fun join_comma :: "string list \<Rightarrow> string" where
  "join_comma [] = []"
| "join_comma [s] = s"
| "join_comma (s # t # ss) = s @ '','' @ join_comma (t # ss)"

text \<open>\<^verbatim>\<open>s.includes(t)\<close>\<close>

fun starts_with :: "string \<Rightarrow> string \<Rightarrow> bool" where
  "starts_with s [] = True"
| "starts_with [] (c # t) = False"
| "starts_with (d # s) (c # t) = (d = c \<and> starts_with s t)"

fun str_includes :: "string \<Rightarrow> string \<Rightarrow> bool" where
  "str_includes [] t = (t = [])"
| "str_includes (c # s) t = (starts_with (c # s) t \<or> str_includes s t)"

text \<open>An object literal: a property whose value is \<^verbatim>\<open>undefined\<close> is not part of the payload.\<close>

fun obj :: "(string \<times> jv option) list \<Rightarrow> (string \<times> jv) list" where
  "obj [] = []"
| "obj ((k, None) # r) = obj r"
| "obj ((k, Some v) # r) = (k, v) # obj r"

section \<open>Exceptions\<close>

text \<open>
  Everything the code can throw. \<open>Error m s\<close> is \<^verbatim>\<open>new Error(m)\<close> with
  \<^verbatim>\<open>err.status\<close> set to \<open>s\<close> when the code assigns it; \<open>HttpsError code m\<close> is the
  typed failure of the callable transport; \<open>TypeError\<close> is raised by the engine (a
  property read on \<^verbatim>\<open>null\<close>, a value with no string form) and by the built-in
  \<^verbatim>\<open>fetch\<close> when the request fails; \<open>SyntaxError\<close> is the rejection of \<^verbatim>\<open>res.json()\<close>
  of the built-in \<^verbatim>\<open>fetch\<close>; \<open>FetchError\<close> is the error class of the node-fetch
  library; \<open>StoreError\<close> is the document store refusing a write.
\<close>

datatype exn =
    Error string "nat option"
  | HttpsError string string
  | FetchError string
  | SyntaxError string
  | TypeError string
  | StoreError string

fun message :: "exn \<Rightarrow> string" where
  "message (Error m s) = m"
| "message (HttpsError c m) = m"
| "message (FetchError m) = m"
| "message (SyntaxError m) = m"
| "message (TypeError m) = m"
| "message (StoreError m) = m"

fun status :: "exn \<Rightarrow> nat option" where
  "status (Error m s) = s"
| "status e = None"

text \<open>
  A property read \<^verbatim>\<open>v.p\<close>, for the property names this program reads (none of
  them is a built-in property of a string, number, boolean or array).
\<close>

fun own_prop :: "jv \<Rightarrow> string \<Rightarrow> jv option" where
  "own_prop (JObj kvs) p = map_of kvs p"
| "own_prop v p = None"

definition get_prop :: "jv \<Rightarrow> string \<Rightarrow> exn + jv option" where
  "get_prop v p =
     (if v = JNull
      then Inl (TypeError (''Cannot read properties of null (reading '' @ [CHR 0x27] @ p @ [CHR 0x27] @ '')''))
      else Inr (own_prop v p))"

text \<open>
  The string form of a value: \<^verbatim>\<open>String(v)\<close>, \<^verbatim>\<open>`${v}`\<close>, \<^verbatim>\<open>"..." + v\<close> and the
  message of \<^verbatim>\<open>new Error(v)\<close>. An array joins the string forms of its elements
  (\<^verbatim>\<open>null\<close> gives the empty string). An object prints as \<^verbatim>\<open>[object Object]\<close> through
  the inherited \<^verbatim>\<open>toString\<close>; an own property named \<^verbatim>\<open>toString\<close> hides it, is not
  callable (no JSON value is), and the conversion raises.
\<close>

definition cannot_convert :: exn where
  "cannot_convert = TypeError ''Cannot convert object to primitive value''"

fun js_to_string :: "jv \<Rightarrow> exn + string"
  and elems_to_strings :: "jv list \<Rightarrow> exn + string list" where
  "js_to_string JNull = Inr ''null''"
| "js_to_string (JBool b) = Inr (if b then ''true'' else ''false'')"
| "js_to_string (JNum t) = Inr t"
| "js_to_string (JStr s) = Inr s"
| "js_to_string (JArr xs) =
     (case elems_to_strings xs of Inl e \<Rightarrow> Inl e | Inr ss \<Rightarrow> Inr (join_comma ss))"
| "js_to_string (JObj kvs) =
     (if map_of kvs ''toString'' \<noteq> None then Inl cannot_convert else Inr ''[object Object]'')"
| "elems_to_strings [] = Inr []"
| "elems_to_strings (x # xs) =
     (case (if x = JNull then Inr [] else js_to_string x) of
        Inl e \<Rightarrow> Inl e
      | Inr s \<Rightarrow> (case elems_to_strings xs of Inl e \<Rightarrow> Inl e | Inr ss \<Rightarrow> Inr (s # ss)))"

definition String_js :: "jv option \<Rightarrow> exn + string" where
  "String_js v = (case v of None \<Rightarrow> Inr ''undefined'' | Some x \<Rightarrow> js_to_string x)"

section \<open>The upstream service and the world\<close>

record request =
  req_method :: string
  req_url :: string
  req_token :: string
  req_body :: "jv option"

text \<open>
  The body of a response: the value \<^verbatim>\<open>JSON.parse\<close> gives for it, or, when it does
  not parse, the message of the parser's error.
\<close>

datatype body = Malformed string | Json jv

text \<open>\<open>res_url\<close> is \<^verbatim>\<open>res.url\<close>, the final address as the fetch library prints it.\<close>

record response =
  res_status :: nat
  res_retry_after :: "string option"
  res_body :: body
  res_url :: string

text \<open>
  The outcome of one \<^verbatim>\<open>fetch\<close>: a response, or a failure to get one, with the
  message of the system error and the request's address as the library prints it.
\<close>

datatype fetch_result = Rejected string string | Responded response

text \<open>
  What one invocation does to the outside: the requests it sends and the timers it
  waits for, in order, and the per-user documents. \<open>Sleep d\<close> records the delay
  argument of \<^verbatim>\<open>setTimeout\<close> in milliseconds (\<open>None\<close> is \<^verbatim>\<open>NaN\<close>). The document
  store validates what it is asked to write; its rules are not part of this
  program, so the world carries them: \<open>store_check w fs\<close> is the error the store
  raises for the record \<open>fs\<close>, if any.
\<close>

datatype event = Fetch request | Sleep "int option"

type_synonym doc = "string \<rightharpoonup> jv"

record world =
  trace :: "event list"
  users :: "string \<rightharpoonup> doc"
  store_check :: "(string \<times> jv) list \<Rightarrow> exn option"

text \<open>The upstream service answers the n-th request of the invocation with \<open>up n\<close>.\<close>

type_synonym upstream = "nat \<Rightarrow> fetch_result"

fun is_Fetch :: "event \<Rightarrow> bool" where
  "is_Fetch (Fetch r) = True"
| "is_Fetch (Sleep d) = False"

definition fetch_count :: "world \<Rightarrow> nat" where
  "fetch_count w = length (filter is_Fetch (trace w))"

definition emit :: "event \<Rightarrow> world \<Rightarrow> world" where
  "emit e w = w\<lparr>trace := trace w @ [e]\<rparr>"

text \<open>The delay a Node timer really waits: anything outside 1 .. 2^31 - 1 becomes 1 ms.\<close>

definition timer_delay :: "int option \<Rightarrow> int" where
  "timer_delay d =
     (case d of None \<Rightarrow> 1 | Some ms \<Rightarrow> if 1 \<le> ms \<and> ms \<le> 2147483647 then ms else 1)"

section \<open>Configuration\<close>

definition REGION :: string where
  "REGION = ''london''"

definition URLS_provisioning :: string where
  "URLS_provisioning = ''https://mt-provisioning-api-v1.'' @ REGION @ ''.agiliumtrade.ai''"

definition URLS_client :: string where
  "URLS_client = ''https://mt-client-api-v1.'' @ REGION @ ''.agiliumtrade.ai''"

definition URLS_metastats :: string where
  "URLS_metastats = ''https://metastats-api-v1.'' @ REGION @ ''.agiliumtrade.ai''"

section \<open>metaFetch: the HTTP helper with retry on 202\<close>

text \<open>\<^verbatim>\<open>parseInt(s, 10)\<close>: leading white space, an optional sign, then decimal digits.\<close>

definition is_space :: "char \<Rightarrow> bool" where
  "is_space c \<longleftrightarrow> c \<in> set [CHR 0x09, CHR 0x0A, CHR 0x0B, CHR 0x0C, CHR 0x0D, CHR 0x20, CHR 0xA0]"

definition is_digit :: "char \<Rightarrow> bool" where
  "is_digit c \<longleftrightarrow> c \<in> set ''0123456789''"

definition digit_val :: "char \<Rightarrow> nat" where
  "digit_val c = of_char c - 48"

definition digits_val :: "string \<Rightarrow> nat" where
  "digits_val ds = foldl (\<lambda>a c. 10 * a + digit_val c) 0 ds"

definition parseInt :: "string \<Rightarrow> int option" where
  "parseInt s =
     (let t = dropWhile is_space s;
          neg = (t \<noteq> [] \<and> hd t = CHR ''-'');
          u = (if t \<noteq> [] \<and> (hd t = CHR ''-'' \<or> hd t = CHR ''+'') then tl t else t);
          ds = takeWhile is_digit u
      in if ds = [] then None
         else Some (if neg then - int (digits_val ds) else int (digits_val ds)))"

record opts =
  opt_method :: "string option"
  opt_body :: "jv option"
  opt_retries :: "nat option"

definition no_opts :: opts where
  "no_opts = \<lparr>opt_method = None, opt_body = None, opt_retries = None\<rparr>"

definition res_ok :: "response \<Rightarrow> bool" where
  "res_ok res \<longleftrightarrow> 200 \<le> res_status res \<and> res_status res \<le> 299"

text \<open>The timer argument on a 202: \<^verbatim>\<open>Math.min(parseInt(hint || "5", 10), 15) * 1000\<close>.\<close>

definition retry_delay :: "response \<Rightarrow> int option" where
  "retry_delay res =
     (let hint = (case res_retry_after res of None \<Rightarrow> ''5'' | Some h \<Rightarrow> if h = [] then ''5'' else h)
      in case parseInt hint of None \<Rightarrow> None | Some wait \<Rightarrow> Some (min wait 15 * 1000))"

text \<open>
  The value of \<^verbatim>\<open>msg\<close> after the \<^verbatim>\<open>try\<close> on a response that is not ok, and the
  exception the code then throws: \<^verbatim>\<open>new Error(msg)\<close> takes the string form of
  \<^verbatim>\<open>msg\<close> outside that \<^verbatim>\<open>try\<close>, so a message with no string form raises instead.
\<close>

definition error_msg :: "response \<Rightarrow> jv option" where
  "error_msg res =
     (let msg = Some (JStr (''HTTP '' @ show_nat (res_status res)))
      in case res_body res of
           Malformed d \<Rightarrow> msg
         | Json v \<Rightarrow> (case get_prop v ''message'' of Inl e \<Rightarrow> msg | Inr m \<Rightarrow> js_or m msg))"

definition not_ok_error :: "response \<Rightarrow> exn" where
  "not_ok_error res =
     (case String_js (error_msg res) of
        Inl e \<Rightarrow> e
      | Inr m \<Rightarrow> Error m (Some (res_status res)))"

definition still_processing :: exn where
  "still_processing = Error ''MetaApi sigue procesando. Reintenta en unos segundos.'' None"

text \<open>
  The loop of the first file, which runs on the built-in \<^verbatim>\<open>fetch\<close> of Node 20: a
  request that fails raises \<^verbatim>\<open>TypeError: fetch failed\<close>, and \<^verbatim>\<open>res.json()\<close> raises
  the parser's \<^verbatim>\<open>SyntaxError\<close>.
\<close>

function metaFetch_loop ::
  "upstream \<Rightarrow> request \<Rightarrow> nat \<Rightarrow> nat \<Rightarrow> world \<Rightarrow> (exn + jv) \<times> world" where
  "metaFetch_loop up rq maxRetries i w =
     (if i \<le> maxRetries then
        (case up (fetch_count w) of
           Rejected u c \<Rightarrow> (Inl (TypeError ''fetch failed''), emit (Fetch rq) w)
         | Responded res \<Rightarrow>
             if res_status res = 202 then
               metaFetch_loop up rq maxRetries (Suc i)
                 (emit (Sleep (retry_delay res)) (emit (Fetch rq) w))
             else if \<not> res_ok res then
               (Inl (not_ok_error res), emit (Fetch rq) w)
             else
               (case res_body res of
                  Malformed d \<Rightarrow> (Inl (SyntaxError d), emit (Fetch rq) w)
                | Json v \<Rightarrow> (Inr v, emit (Fetch rq) w)))
      else (Inl still_processing, w))"
  by pat_completeness auto
termination
  by (relation "measure (\<lambda>(up, rq, maxRetries, i, w). Suc maxRetries - i)") auto

declare metaFetch_loop.simps [simp del]

text \<open>\<^verbatim>\<open>opts.retries ?? 5\<close>, \<^verbatim>\<open>opts.method || "GET"\<close> and the body that is sent.\<close>

definition maxRetries_of :: "opts \<Rightarrow> nat" where
  "maxRetries_of opts = (case opt_retries opts of None \<Rightarrow> 5 | Some r \<Rightarrow> r)"

definition method_of :: "opts \<Rightarrow> string" where
  "method_of opts = (case opt_method opts of None \<Rightarrow> ''GET'' | Some m \<Rightarrow> if m = [] then ''GET'' else m)"

definition body_of :: "opts \<Rightarrow> jv option" where
  "body_of opts = (if truthy (opt_body opts) then opt_body opts else None)"

text \<open>The request that every attempt of one call sends.\<close>

definition fetch_request :: "string \<Rightarrow> string \<Rightarrow> opts \<Rightarrow> request" where
  "fetch_request url token opts =
     \<lparr>req_method = method_of opts, req_url = url, req_token = token, req_body = body_of opts\<rparr>"

definition metaFetch :: "upstream \<Rightarrow> string \<Rightarrow> string \<Rightarrow> opts \<Rightarrow> world \<Rightarrow> (exn + jv) \<times> world" where
  "metaFetch up url token opts w =
     metaFetch_loop up (fetch_request url token opts) (maxRetries_of opts) 0 w"

section \<open>The callable request and the document store\<close>

record auth_info =
  auth_uid :: string
  auth_email :: "string option"

record call =
  call_auth :: "auth_info option"
  call_data :: jv

text \<open>The Timestamp object the store materialises for \<^verbatim>\<open>FieldValue.serverTimestamp()\<close>.\<close>

definition serverTimestamp :: "nat \<Rightarrow> jv" where
  "serverTimestamp now = JObj [(''_seconds'', JNum (show_nat now)), (''_nanoseconds'', JNum ''0'')]"

fun first_undefined :: "(string \<times> jv option) list \<Rightarrow> string option" where
  "first_undefined [] = None"
| "first_undefined ((k, None) # r) = Some k"
| "first_undefined ((k, Some v) # r) = first_undefined r"

text \<open>
  \<^verbatim>\<open>doc(uid).set(fields, {merge: true})\<close>: the store refuses a field that is
  \<^verbatim>\<open>undefined\<close> and whatever else its own validation refuses; otherwise the given
  fields are written over the document, which is created when absent.
\<close>

definition set_merge :: "string \<Rightarrow> (string \<times> jv option) list \<Rightarrow> world \<Rightarrow> exn + world" where
  "set_merge uid fs w =
     (case first_undefined fs of
        Some k \<Rightarrow> Inl (StoreError (''Cannot use undefined as a Firestore value (found in field '' @ k @ '')''))
      | None \<Rightarrow>
          (case store_check w (obj fs) of
             Some e \<Rightarrow> Inl e
           | None \<Rightarrow>
               Inr (w\<lparr>users := (users w)(uid \<mapsto>
                      (case users w uid of None \<Rightarrow> Map.empty | Some d \<Rightarrow> d) ++ map_of (obj fs))\<rparr>)))"

text \<open>\<^verbatim>\<open>doc(uid).update(...)\<close> fails when the document does not exist.\<close>

definition update_doc :: "string \<Rightarrow> (doc \<Rightarrow> doc) \<Rightarrow> world \<Rightarrow> exn + world" where
  "update_doc uid f w =
     (case users w uid of
        None \<Rightarrow> Inl (StoreError ''No document to update'')
      | Some d \<Rightarrow> Inr (w\<lparr>users := (users w)(uid \<mapsto> f d)\<rparr>))"

section \<open>src/functions/index.js\<close>

definition getAccountId :: "string \<Rightarrow> world \<Rightarrow> exn + jv" where
  "getAccountId uid w =
     (let ident = (case users w uid of None \<Rightarrow> Some (JBool False) | Some d \<Rightarrow> d ''metaApiAccountId'')
      in case ident of
           None \<Rightarrow> Inl (HttpsError ''not-found'' ''No tienes cuenta de broker conectada.'')
         | Some v \<Rightarrow>
             if \<not> truthy (Some v)
             then Inl (HttpsError ''not-found'' ''No tienes cuenta de broker conectada.'')
             else Inr v)"

definition requireAuth :: "call \<Rightarrow> exn + string" where
  "requireAuth request =
     (case call_auth request of
        None \<Rightarrow> Inl (HttpsError ''unauthenticated'' ''Inicia sesion primero.'')
      | Some a \<Rightarrow> Inr (auth_uid a))"

text \<open>The endpoints, for an identifier and dates already in their string form.\<close>

definition accounts_url :: string where
  "accounts_url = URLS_provisioning @ ''/users/current/accounts''"

definition account_url :: "string \<Rightarrow> string" where
  "account_url ident = URLS_provisioning @ ''/users/current/accounts/'' @ ident"



definition retries0 :: opts where
  "retries0 = \<lparr>opt_method = None, opt_body = None, opt_retries = Some 0\<rparr>"

subsection \<open>1. connectBroker\<close>

text \<open>
  The check of an existing link: \<open>Some payload\<close> is the early return, \<open>None\<close> falls
  through to the creation (no link, or the \<^verbatim>\<open>try\<close> block raised: while building the
  address, in the request, or reading \<^verbatim>\<open>acct.state\<close>).
\<close>

definition connect_lookup :: "upstream \<Rightarrow> string \<Rightarrow> string \<Rightarrow> world \<Rightarrow> jv option \<times> world" where
  "connect_lookup up token uid w =
     (case users w uid of
        None \<Rightarrow> (None, w)
      | Some d \<Rightarrow>
          if \<not> truthy (d ''metaApiAccountId'') then (None, w)
          else
            (case String_js (d ''metaApiAccountId'') of
               Inl e \<Rightarrow> (None, w)
             | Inr existingId \<Rightarrow>
                 (case metaFetch up (account_url existingId) token retries0 w of
                    (Inl e, w1) \<Rightarrow> (None, w1)
                  | (Inr acct, w1) \<Rightarrow>
                      (case get_prop acct ''state'' of
                         Inl e \<Rightarrow> (None, w1)
                       | Inr st \<Rightarrow>
                           (Some (JObj (obj [(''success'', Some (JBool True)),
                                             (''message'', Some (JStr ''Cuenta ya vinculada'')),
                                             (''state'', st)])), w1)))))"

text \<open>
  The body of the create request. \<^verbatim>\<open>`DON-${mtLogin}`\<close> and \<^verbatim>\<open>String(mtLogin)\<close> raise
  when the login has no string form.
\<close>

definition create_body :: "jv option \<Rightarrow> jv option \<Rightarrow> jv option \<Rightarrow> jv option \<Rightarrow> exn + jv" where
  "create_body brokerServer mtLogin mtPassword platform =
     (case String_js mtLogin of
        Inl e \<Rightarrow> Inl e
      | Inr login \<Rightarrow>
          Inr (JObj (obj [(''name'', Some (JStr (''DON-'' @ login))),
                          (''type'', Some (JStr ''cloud'')),
                          (''login'', Some (JStr login)),
                          (''password'', mtPassword),
                          (''server'', brokerServer),
                          (''platform'', js_or platform (Some (JStr ''mt5''))),
                          (''region'', Some (JStr REGION)),
                          (''application'', Some (JStr ''MetaApi'')),
                          (''magic'', Some (JNum ''0'')),
                          (''metastatsApiEnabled'', Some (JBool True)),
                          (''resourceSlots'', Some (JNum ''1'')),
                          (''copyFactoryRoles'', Some (JArr []))])))"

definition create_opts :: "jv \<Rightarrow> opts" where
  "create_opts b = \<lparr>opt_method = Some ''POST'', opt_body = Some b, opt_retries = Some 0\<rparr>"

text \<open>The \<^verbatim>\<open>catch (err)\<close> of the creation.\<close>

definition create_catch :: "exn \<Rightarrow> exn" where
  "create_catch err =
     (if message err \<noteq> [] \<and> str_includes (message err) ''already exists''
      then HttpsError ''already-exists'' ''Esta cuenta MT5 ya esta registrada.''
      else HttpsError ''internal'' (''Error MetaApi: '' @ message err))"

text \<open>The record written to the store; \<open>login\<close> is \<^verbatim>\<open>String(mtLogin)\<close>.\<close>

definition link_fields ::
  "call \<Rightarrow> nat \<Rightarrow> jv option \<Rightarrow> jv option \<Rightarrow> string \<Rightarrow> jv option \<Rightarrow> (string \<times> jv option) list" where
  "link_fields request now account_id brokerServer login platform =
     [(''email'', Some (JStr (case call_auth request of
                                None \<Rightarrow> []
                              | Some a \<Rightarrow> (case auth_email a of None \<Rightarrow> [] | Some e \<Rightarrow> e)))),
      (''metaApiAccountId'', account_id),
      (''brokerServer'', brokerServer),
      (''mtLogin'', Some (JStr login)),
      (''platform'', js_or platform (Some (JStr ''mt5''))),
      (''connectedAt'', Some (serverTimestamp now)),
      (''updatedAt'', Some (serverTimestamp now))]"

text \<open>What one poll reads from the account: raises on a \<^verbatim>\<open>null\<close> body.\<close>

definition is_deployed :: "jv \<Rightarrow> exn + bool" where
  "is_deployed st =
     (case get_prop st ''state'' of
        Inl e \<Rightarrow> Inl e
      | Inr s \<Rightarrow>
          if s = Some (JStr ''DEPLOYED'') then Inr True
          else (case get_prop st ''connectionStatus'' of
                  Inl e \<Rightarrow> Inl e
                | Inr c \<Rightarrow> Inr (c = Some (JStr ''CONNECTED''))))"

text \<open>
  The deployment wait: \<^verbatim>\<open>for (var i = 0; i < 30; i++)\<close>, returning \<^verbatim>\<open>deployed\<close>.
  \<open>url\<close> is the outcome of building the address from \<^verbatim>\<open>account.id\<close>, which the code
  does inside the \<^verbatim>\<open>try\<close> of every round.
\<close>

function poll_deploy :: "upstream \<Rightarrow> exn + string \<Rightarrow> string \<Rightarrow> nat \<Rightarrow> world \<Rightarrow> bool \<times> world" where
  "poll_deploy up url token i w =
     (if i < 30 then
        (case url of
           Inl e \<Rightarrow> poll_deploy up url token (Suc i) (emit (Sleep (Some 2000)) w)
         | Inr u \<Rightarrow>
             (case metaFetch up u token retries0 (emit (Sleep (Some 2000)) w) of
                (Inl e, w1) \<Rightarrow> poll_deploy up url token (Suc i) w1
              | (Inr st, w1) \<Rightarrow>
                  (case is_deployed st of
                     Inl e \<Rightarrow> poll_deploy up url token (Suc i) w1
                   | Inr d \<Rightarrow> if d then (True, w1) else poll_deploy up url token (Suc i) w1)))
      else (False, w))"
  by pat_completeness auto
termination
  by (relation "measure (\<lambda>(up, url, token, i, w). 30 - i)") auto

declare poll_deploy.simps [simp del]

text \<open>
  \<^verbatim>\<open>const { brokerServer, mtLogin, mtPassword, platform } = request.data\<close>; the
  first argument is the text of the destructured expression, which the engine quotes
  in its message.
\<close>

definition destructure :: "string \<Rightarrow> jv \<Rightarrow> exn + (jv option \<times> jv option \<times> jv option \<times> jv option)" where
  "destructure src d =
     (if d = JNull
      then Inl (TypeError (''Cannot destructure property '' @ [CHR 0x27] @ ''brokerServer'' @ [CHR 0x27]
                           @ '' of '' @ [CHR 0x27] @ src @ [CHR 0x27] @ '' as it is null.''))
      else Inr (own_prop d ''brokerServer'', own_prop d ''mtLogin'',
                own_prop d ''mtPassword'', own_prop d ''platform''))"

text \<open>The handler after a successful create request, for the account it returned.\<close>

definition connect_finish ::
  "upstream \<Rightarrow> string \<Rightarrow> nat \<Rightarrow> call \<Rightarrow> string \<Rightarrow> jv option \<Rightarrow> jv option \<Rightarrow> jv option
     \<Rightarrow> jv \<Rightarrow> world \<Rightarrow> (exn + jv) \<times> world" where
  "connect_finish up token now request uid brokerServer mtLogin platform account w2 =
     (case get_prop account ''id'' of
        Inl e \<Rightarrow> (Inl e, w2)
      | Inr account_id \<Rightarrow>
          (case String_js mtLogin of
             Inl e \<Rightarrow> (Inl e, w2)
           | Inr login \<Rightarrow>
               (case set_merge uid (link_fields request now account_id brokerServer login platform) w2 of
                  Inl e \<Rightarrow> (Inl e, w2)
                | Inr w3 \<Rightarrow>
                    (case poll_deploy up
                            (case String_js account_id of Inl e \<Rightarrow> Inl e | Inr s \<Rightarrow> Inr (account_url s))
                            token 0 w3 of
                       (deployed, w4) \<Rightarrow>
                         (Inr (JObj (obj [(''success'', Some (JBool True)),
                                          (''deployed'', Some (JBool deployed)),
                                          (''message'', Some (JStr (if deployed then ''Cuenta conectada''
                                             else ''Cuenta creada. Desplegando, intenta en 1-2 min.'')))])),
                          w4)))))"

text \<open>The handler from the creation on, for the destructured input.\<close>

definition connect_create ::
  "upstream \<Rightarrow> string \<Rightarrow> nat \<Rightarrow> call \<Rightarrow> string \<Rightarrow> jv option \<Rightarrow> jv option \<Rightarrow> jv option \<Rightarrow> jv option
     \<Rightarrow> world \<Rightarrow> (exn + jv) \<times> world" where
  "connect_create up token now request uid brokerServer mtLogin mtPassword platform w1 =
     (case create_body brokerServer mtLogin mtPassword platform of
        Inl err \<Rightarrow> (Inl (create_catch err), w1)
      | Inr b \<Rightarrow>
          (case metaFetch up accounts_url token (create_opts b) w1 of
             (Inl err, w2) \<Rightarrow> (Inl (create_catch err), w2)
           | (Inr account, w2) \<Rightarrow>
               connect_finish up token now request uid brokerServer mtLogin platform account w2))"

definition connectBroker :: "upstream \<Rightarrow> string \<Rightarrow> nat \<Rightarrow> call \<Rightarrow> world \<Rightarrow> (exn + jv) \<times> world" where
  "connectBroker up token now request w =
     (case requireAuth request of
        Inl e \<Rightarrow> (Inl e, w)
      | Inr uid \<Rightarrow>
          (case destructure ''request.data'' (call_data request) of
             Inl e \<Rightarrow> (Inl e, w)
           | Inr (brokerServer, mtLogin, mtPassword, platform) \<Rightarrow>
               if \<not> truthy brokerServer \<or> \<not> truthy mtLogin \<or> \<not> truthy mtPassword
               then (Inl (HttpsError ''invalid-argument'' ''Faltan datos: servidor, login o password.''), w)
               else
                 (case connect_lookup up token uid w of
                    (Some payload, w1) \<Rightarrow> (Inr payload, w1)
                  | (None, w1) \<Rightarrow>
                      connect_create up token now request uid brokerServer mtLogin mtPassword platform w1)))"

subsection \<open>2. getUserStatus\<close>


subsection \<open>3. getAccountInfo\<close>


subsection \<open>4. getMetrics\<close>



definition enable_opts :: opts where
  "enable_opts = \<lparr>opt_method = Some ''PUT'', opt_body = Some (JObj []), opt_retries = Some 0\<rparr>"





subsection \<open>5. getTrades\<close>

text \<open>
  \<^verbatim>\<open>(request.data && request.data.startDate) || ago\<close>; the two defaults are the ISO
  strings of the clock, \<open>now\<close> and one year before it.
\<close>

definition date_arg :: "jv \<Rightarrow> string \<Rightarrow> string \<Rightarrow> jv option" where
  "date_arg d field dflt =
     js_or (if truthy (Some d) then own_prop d field else Some d) (Some (JStr dflt))"

definition trades_url :: "string \<Rightarrow> string \<Rightarrow> string \<Rightarrow> string" where
  "trades_url ident start end' =
     URLS_metastats @ ''/users/current/accounts/'' @ ident @ ''/historical-trades/time/''
       @ start @ ''/'' @ end' @ ''?updateHistory=true''"

definition deals_url :: "string \<Rightarrow> string \<Rightarrow> string \<Rightarrow> string" where
  "deals_url ident start end' =
     URLS_client @ ''/users/current/accounts/'' @ ident @ ''/history-deals/time/''
       @ start @ ''/'' @ end'"

text \<open>
  The string forms that both addresses concatenate, taken left to right: the
  identifier, the start and the end. The first one that has none raises.
\<close>

definition url_parts :: "jv \<Rightarrow> jv option \<Rightarrow> jv option \<Rightarrow> exn + (string \<times> string \<times> string)" where
  "url_parts ident start end' =
     (case js_to_string ident of
        Inl e \<Rightarrow> Inl e
      | Inr i \<Rightarrow>
          (case String_js start of
             Inl e \<Rightarrow> Inl e
           | Inr s \<Rightarrow> (case String_js end' of Inl e \<Rightarrow> Inl e | Inr e' \<Rightarrow> Inr (i, s, e'))))"

fun isArray :: "jv \<Rightarrow> bool" where
  "isArray (JArr xs) = True"
| "isArray v = False"

text \<open>The first \<^verbatim>\<open>try\<close> block (MetaStats).\<close>

definition trades_primary ::
  "upstream \<Rightarrow> string \<Rightarrow> jv \<Rightarrow> jv option \<Rightarrow> jv option \<Rightarrow> world \<Rightarrow> (exn + jv) \<times> world" where
  "trades_primary up token ident start end' w =
     (case url_parts ident start end' of
        Inl e \<Rightarrow> (Inl e, w)
      | Inr (i, s, e') \<Rightarrow>
          (case metaFetch up (trades_url i s e') token no_opts w of
             (Inl e, w1) \<Rightarrow> (Inl e, w1)
           | (Inr res, w1) \<Rightarrow>
               (case get_prop res ''trades'' of
                  Inl e \<Rightarrow> (Inl e, w1)
                | Inr t \<Rightarrow>
                    (Inr (JObj (obj [(''trades'', js_or t (Some (if isArray res then res else JArr []))),
                                     (''source'', Some (JStr ''metastats''))])), w1))))"

text \<open>The body of the second \<^verbatim>\<open>try\<close> block (Client API), before its \<^verbatim>\<open>catch\<close>.\<close>

definition trades_secondary ::
  "upstream \<Rightarrow> string \<Rightarrow> jv \<Rightarrow> jv option \<Rightarrow> jv option \<Rightarrow> world \<Rightarrow> (exn + jv) \<times> world" where
  "trades_secondary up token ident start end' w =
     (case url_parts ident start end' of
        Inl e \<Rightarrow> (Inl e, w)
      | Inr (i, s, e') \<Rightarrow>
          (case metaFetch up (deals_url i s e') token no_opts w of
             (Inl e, w1) \<Rightarrow> (Inl e, w1)
           | (Inr res, w1) \<Rightarrow>
               if isArray res
               then (Inr (JObj [(''trades'', res), (''source'', JStr ''client'')]), w1)
               else
                 (case get_prop res ''deals'' of
                    Inl e \<Rightarrow> (Inl e, w1)
                  | Inr t \<Rightarrow>
                      (Inr (JObj (obj [(''trades'', js_or t (Some (JArr []))),
                                       (''source'', Some (JStr ''client''))])), w1))))"

definition getTrades ::
  "upstream \<Rightarrow> string \<Rightarrow> string \<Rightarrow> string \<Rightarrow> call \<Rightarrow> world \<Rightarrow> (exn + jv) \<times> world" where
  "getTrades up token now ago request w =
     (case requireAuth request of
        Inl e \<Rightarrow> (Inl e, w)
      | Inr uid \<Rightarrow>
          (case getAccountId uid w of
             Inl e \<Rightarrow> (Inl e, w)
           | Inr ident \<Rightarrow>
               (let start = date_arg (call_data request) ''startDate'' ago;
                    end' = date_arg (call_data request) ''endDate'' now
                in case trades_primary up token ident start end' w of
                     (Inr payload, w1) \<Rightarrow> (Inr payload, w1)
                   | (Inl e1, w1) \<Rightarrow>
                       (case trades_secondary up token ident start end' w1 of
                          (Inr payload, w2) \<Rightarrow> (Inr payload, w2)
                        | (Inl err, w2) \<Rightarrow> (Inl (HttpsError ''internal'' (message err)), w2)))))"

subsection \<open>6. getDailyGrowth\<close>


subsection \<open>7. disconnectBroker\<close>

definition delete_opts :: opts where
  "delete_opts = \<lparr>opt_method = Some ''DELETE'', opt_body = None, opt_retries = Some 0\<rparr>"

text \<open>The argument of \<^verbatim>\<open>update\<close>: three field deletions and a server timestamp.\<close>

definition disconnect_update :: "nat \<Rightarrow> doc \<Rightarrow> doc" where
  "disconnect_update now d =
     d(''metaApiAccountId'' := None, ''brokerServer'' := None, ''mtLogin'' := None,
       ''disconnectedAt'' \<mapsto> serverTimestamp now)"

text \<open>The best-effort delete: the \<^verbatim>\<open>try\<close> block, whose outcome is dropped.\<close>

definition disconnect_remote :: "upstream \<Rightarrow> string \<Rightarrow> jv option \<Rightarrow> world \<Rightarrow> world" where
  "disconnect_remote up token ident w =
     (case String_js ident of
        Inl e \<Rightarrow> w
      | Inr s \<Rightarrow> snd (metaFetch up (account_url s) token delete_opts w))"

definition disconnectBroker :: "upstream \<Rightarrow> string \<Rightarrow> nat \<Rightarrow> call \<Rightarrow> world \<Rightarrow> (exn + jv) \<times> world" where
  "disconnectBroker up token now request w =
     (case requireAuth request of
        Inl e \<Rightarrow> (Inl e, w)
      | Inr uid \<Rightarrow>
          (case users w uid of
             None \<Rightarrow> (Inr (JObj [(''ok'', JBool True)]), w)
           | Some d \<Rightarrow>
               if \<not> truthy (d ''metaApiAccountId'')
               then (Inr (JObj [(''ok'', JBool True)]), w)
               else
                 (let w1 = disconnect_remote up token (d ''metaApiAccountId'') w
                  in case update_doc uid (disconnect_update now) w1 of
                       Inl e \<Rightarrow> (Inl e, w1)
                     | Inr w2 \<Rightarrow> (Inr (JObj [(''ok'', JBool True)]), w2))))"

section \<open>src/pagina_Invert/functions/index.js\<close>







































section \<open>Observations and example inputs\<close>

text \<open>The events an operation adds to the trace between two worlds.\<close>

definition new_events :: "world \<Rightarrow> world \<Rightarrow> event list" where
  "new_events w w' = drop (length (trace w)) (trace w')"

text \<open>Concrete worlds, upstream scripts and calls on which the theorems below are evaluated.\<close>

definition ex_world0 :: world where
  "ex_world0 = \<lparr>trace = [], users = Map.empty, store_check = (\<lambda>fs. None)\<rparr>"

definition ex_response :: "nat \<Rightarrow> string option \<Rightarrow> body \<Rightarrow> response" where
  "ex_response st hint b =
     \<lparr>res_status = st, res_retry_after = hint, res_body = b, res_url = ''https://x''\<rparr>"

definition ex_always_202 :: upstream where
  "ex_always_202 n = Responded (ex_response 202 (Some ''60'') (Malformed []))"

definition ex_500_empty_message :: upstream where
  "ex_500_empty_message n = Responded (ex_response 500 None (Json (JObj [(''message'', JStr [])])))"

definition ex_500_object_message :: upstream where
  "ex_500_object_message n =
     Responded (ex_response 500 None (Json (JObj [(''message'', JObj [(''toString'', JNum ''1'')])])))"

definition ex_202_then_404 :: upstream where
  "ex_202_then_404 n =
     (if n = 0 then Responded (ex_response 202 None (Malformed []))
      else Responded (ex_response 404 None (Json (JObj [(''message'', JStr ''Account not found'')]))))"

text \<open>A field of a user's stored document (\<open>None\<close> when the document or the field is absent).\<close>

definition field_of :: "world \<Rightarrow> string \<Rightarrow> string \<Rightarrow> jv option" where
  "field_of w uid k = (case users w uid of None \<Rightarrow> None | Some d \<Rightarrow> d k)"

definition ex_doc :: doc where
  "ex_doc = [''email'' \<mapsto> JStr ''a@b.c'', ''metaApiAccountId'' \<mapsto> JStr ''acc-1'',
             ''brokerServer'' \<mapsto> JStr ''Xyz-Live'', ''mtLogin'' \<mapsto> JStr ''12345'',
             ''platform'' \<mapsto> JStr ''mt5'', ''connectedAt'' \<mapsto> serverTimestamp 100]"

definition ex_linked :: world where
  "ex_linked = \<lparr>trace = [], users = [''u1'' \<mapsto> ex_doc], store_check = (\<lambda>fs. None)\<rparr>"

definition ex_call :: "jv \<Rightarrow> call" where
  "ex_call d = \<lparr>call_auth = Some \<lparr>auth_uid = ''u1'', auth_email = Some ''a@b.c''\<rparr>, call_data = d\<rparr>"

definition ex_always_ok :: "jv \<Rightarrow> upstream" where
  "ex_always_ok v n = Responded (ex_response 200 None (Json v))"

definition ex_connect_data :: jv where
  "ex_connect_data = JObj [(''brokerServer'', JStr ''Xyz-Live''), (''mtLogin'', JStr ''12345''),
                           (''mtPassword'', JStr ''p''), (''platform'', JStr ''mt5'')]"

definition ex_account :: jv where
  "ex_account = JObj [(''id'', JStr ''acc-1''), (''state'', JStr ''DEPLOYED'')]"


text \<open>
  The request Connect sends to look an account up (the existing link, and each poll),
  for the string form of the identifier.
\<close>

definition lookup_request :: "string \<Rightarrow> string \<Rightarrow> request" where
  "lookup_request token ident =
     \<lparr>req_method = ''GET'',
      req_url = ''https://mt-provisioning-api-v1.london.agiliumtrade.ai/users/current/accounts/'' @ ident,
      req_token = token, req_body = None\<rparr>"

text \<open>
  A response that makes a poll stop: a 2xx other than 202 whose JSON body is an
  account with the state \<^verbatim>\<open>DEPLOYED\<close> or the connection status \<^verbatim>\<open>CONNECTED\<close>.
\<close>

definition reports_deployed :: "fetch_result \<Rightarrow> bool" where
  "reports_deployed fr =
     (case fr of
        Rejected u c \<Rightarrow> False
      | Responded res \<Rightarrow>
          200 \<le> res_status res \<and> res_status res \<le> 299 \<and> res_status res \<noteq> 202 \<and>
          (case res_body res of
             Malformed d \<Rightarrow> False
           | Json st \<Rightarrow>
               own_prop st ''state'' = Some (JStr ''DEPLOYED'') \<or>
               own_prop st ''connectionStatus'' = Some (JStr ''CONNECTED'')))"

text \<open>
  A trace in which every request comes right after a 2000 ms timer; the other timers
  (the wait after a 202) stand between a request and the next 2000 ms timer.
\<close>

fun spaced :: "event list \<Rightarrow> bool" where
  "spaced [] = True"
| "spaced (Sleep d # Fetch r # es) = (d = Some 2000 \<and> spaced es)"
| "spaced (Fetch r # es) = False"
| "spaced (Sleep d # es) = spaced es"

text \<open>The create-account request, for the string form of the login.\<close>

definition create_request :: "string \<Rightarrow> jv option \<Rightarrow> string \<Rightarrow> jv option \<Rightarrow> jv option \<Rightarrow> request" where
  "create_request token brokerServer login mtPassword platform =
     \<lparr>req_method = ''POST'',
      req_url = ''https://mt-provisioning-api-v1.london.agiliumtrade.ai/users/current/accounts'',
      req_token = token,
      req_body = Some (JObj (obj
        [(''name'', Some (JStr (''DON-'' @ login))),
         (''type'', Some (JStr ''cloud'')),
         (''login'', Some (JStr login)),
         (''password'', mtPassword),
         (''server'', brokerServer),
         (''platform'', if truthy platform then platform else Some (JStr ''mt5'')),
         (''region'', Some (JStr ''london'')),
         (''application'', Some (JStr ''MetaApi'')),
         (''magic'', Some (JNum ''0'')),
         (''metastatsApiEnabled'', Some (JBool True)),
         (''resourceSlots'', Some (JNum ''1'')),
         (''copyFactoryRoles'', Some (JArr []))]))\<rparr>"


definition ex_202_then_account :: upstream where
  "ex_202_then_account n =
     (if n = 0 then Responded (ex_response 202 None (Malformed []))
      else Responded (ex_response 200 None (Json ex_account)))"

text \<open>A payload whose login is the JSON object \<^verbatim>\<open>{"toString": 1}\<close>.\<close>

definition ex_connect_data_object_login :: jv where
  "ex_connect_data_object_login =
     JObj [(''brokerServer'', JStr ''Xyz-Live''), (''mtLogin'', JObj [(''toString'', JNum ''1'')]),
           (''mtPassword'', JStr ''p''), (''platform'', JStr ''mt5'')]"







definition trades_request :: "string \<Rightarrow> string \<Rightarrow> string \<Rightarrow> string \<Rightarrow> request" where
  "trades_request token ident start end' =
     \<lparr>req_method = ''GET'',
      req_url = ''https://metastats-api-v1.london.agiliumtrade.ai/users/current/accounts/''
                @ ident @ ''/historical-trades/time/'' @ start @ ''/'' @ end' @ ''?updateHistory=true'',
      req_token = token, req_body = None\<rparr>"

definition deals_request :: "string \<Rightarrow> string \<Rightarrow> string \<Rightarrow> string \<Rightarrow> request" where
  "deals_request token ident start end' =
     \<lparr>req_method = ''GET'',
      req_url = ''https://mt-client-api-v1.london.agiliumtrade.ai/users/current/accounts/''
                @ ident @ ''/history-deals/time/'' @ start @ ''/'' @ end',
      req_token = token, req_body = None\<rparr>"


definition ex_500_then_deals :: upstream where
  "ex_500_then_deals n =
     (if n = 0
      then Responded (ex_response 500 None (Malformed ''Unexpected token''))
      else Responded (ex_response 200 None (Json (JObj [(''deals'', JArr [JNum ''7''])]))))"

text \<open>A payload whose start date is the JSON object \<^verbatim>\<open>{"toString": 1}\<close>.\<close>

definition ex_trades_data_object_start :: jv where
  "ex_trades_data_object_start = JObj [(''startDate'', JObj [(''toString'', JNum ''1'')])]"


text \<open>
  Two worlds that the operations cannot tell apart: the same number of requests sent
  so far (so the upstream answers the next one alike), the same store and the same
  store rules.
\<close>

definition sim :: "world \<Rightarrow> world \<Rightarrow> bool" where
  "sim w w' \<longleftrightarrow> fetch_count w = fetch_count w' \<and> users w = users w' \<and> store_check w = store_check w'"


text \<open>
  An answer on which the two fetch libraries word their own failure differently: a
  request that fails, or a 2xx body that is not JSON. The errors they raise then carry
  no status.
\<close>

definition library_failure :: "fetch_result \<Rightarrow> bool" where
  "library_failure fr =
     (case fr of
        Rejected u c \<Rightarrow> True
      | Responded res \<Rightarrow>
          res_status res \<noteq> 202 \<and> res_ok res \<and>
          (case res_body res of Malformed d \<Rightarrow> True | Json v \<Rightarrow> False))"

fun library_error :: "exn \<Rightarrow> bool" where
  "library_error (FetchError m) = True"
| "library_error (SyntaxError m) = True"
| "library_error (TypeError m) = (m = ''fetch failed'')"
| "library_error e = False"

text \<open>
  Two results of the helper that are the same, or are the two libraries' errors for
  the same failed answer.
\<close>

definition lib_rel :: "upstream \<Rightarrow> exn + jv \<Rightarrow> exn + jv \<Rightarrow> bool" where
  "lib_rel up r r' \<longleftrightarrow>
     r' = r \<or>
     ((\<exists>n. library_failure (up n)) \<and>
      (\<exists>e e'. r = Inl e \<and> r' = Inl e' \<and> library_error e \<and> library_error e'))"




section \<open>Properties of metaFetch\<close>

lemma fetch_count_emit [simp]:
  "fetch_count (emit (Fetch r) w) = Suc (fetch_count w)"
  "fetch_count (emit (Sleep d) w) = fetch_count w"
  by (simp_all add: fetch_count_def emit_def)

lemma users_emit [simp]: "users (emit e w) = users w"
  by (simp add: emit_def)

lemma store_check_emit [simp]: "store_check (emit e w) = store_check w"
  by (simp add: emit_def)

lemma trace_emit [simp]: "trace (emit e w) = trace w @ [e]"
  by (simp add: emit_def)

lemma no_string_form:
  "js_to_string v = Inl e \<Longrightarrow> e = cannot_convert"
  "elems_to_strings xs = Inl e \<Longrightarrow> e = cannot_convert"
  by (induction v and xs arbitrary: e and e rule: js_to_string_elems_to_strings.induct)
     (auto split: sum.splits if_splits)

lemma String_js_Inl: "String_js v = Inl e \<Longrightarrow> e = cannot_convert"
  by (cases v) (auto simp: String_js_def dest: no_string_form)

lemma loop_stop: "\<not> i \<le> m \<Longrightarrow> metaFetch_loop up rq m i w = (Inl still_processing, w)"
  by (subst metaFetch_loop.simps) simp

lemma loop_rejected:
  "i \<le> m \<Longrightarrow> up (fetch_count w) = Rejected u c \<Longrightarrow>
   metaFetch_loop up rq m i w = (Inl (TypeError ''fetch failed''), emit (Fetch rq) w)"
  by (subst metaFetch_loop.simps) simp

lemma loop_202:
  "i \<le> m \<Longrightarrow> up (fetch_count w) = Responded res \<Longrightarrow> res_status res = 202 \<Longrightarrow>
   metaFetch_loop up rq m i w =
     metaFetch_loop up rq m (Suc i) (emit (Sleep (retry_delay res)) (emit (Fetch rq) w))"
  by (subst metaFetch_loop.simps) simp

lemma loop_error:
  "i \<le> m \<Longrightarrow> up (fetch_count w) = Responded res \<Longrightarrow> \<not> res_ok res \<Longrightarrow>
   metaFetch_loop up rq m i w = (Inl (not_ok_error res), emit (Fetch rq) w)"
  by (subst metaFetch_loop.simps) (auto simp: res_ok_def)

lemma loop_ok:
  "i \<le> m \<Longrightarrow> up (fetch_count w) = Responded res \<Longrightarrow> res_ok res \<Longrightarrow> res_status res \<noteq> 202 \<Longrightarrow>
   metaFetch_loop up rq m i w =
     (case res_body res of
        Malformed d \<Rightarrow> (Inl (SyntaxError d), emit (Fetch rq) w)
      | Json v \<Rightarrow> (Inr v, emit (Fetch rq) w))"
  by (subst metaFetch_loop.simps) simp

lemma loop_cases:
  obtains (stop) "\<not> i \<le> m"
  | (rejected) u c where "i \<le> m" "up (fetch_count w) = Rejected u c"
  | (retry) res where "i \<le> m" "up (fetch_count w) = Responded res" "res_status res = 202"
  | (error) res where "i \<le> m" "up (fetch_count w) = Responded res" "\<not> res_ok res"
  | (ok) res where "i \<le> m" "up (fetch_count w) = Responded res" "res_ok res" "res_status res \<noteq> 202"
  by (cases "up (fetch_count w)") (auto simp: res_ok_def)

lemma timer_retry_delay: "timer_delay (retry_delay res) \<le> 15000"
  by (simp add: timer_delay_def retry_delay_def Let_def split: option.splits)

lemma metaFetch_loop_users:
  "users (snd (metaFetch_loop up rq m i w)) = users w \<and>
   store_check (snd (metaFetch_loop up rq m i w)) = store_check w"
proof (induction up rq m i w rule: metaFetch_loop.induct)
  case (1 up rq m i w)
  show ?case
  proof (cases rule: loop_cases[where i=i and m=m and up=up and w=w])
    case (retry res)
    with 1 show ?thesis by (simp add: loop_202)
  qed (simp_all add: loop_stop loop_rejected loop_error loop_ok split: body.splits)
qed

lemma metaFetch_loop_trace:
  "\<exists>es. trace (snd (metaFetch_loop up rq m i w)) = trace w @ es \<and>
        (\<forall>d. Sleep d \<in> set es \<longrightarrow> timer_delay d \<le> 15000) \<and>
        (\<forall>r. Fetch r \<in> set es \<longrightarrow> r = rq) \<and>
        length (filter is_Fetch es) \<le> Suc m - i"
proof (induction up rq m i w rule: metaFetch_loop.induct)
  case (1 up rq m i w)
  show ?case
  proof (cases rule: loop_cases[where i=i and m=m and up=up and w=w])
    case (retry res)
    from 1[OF retry] obtain es where
      es: "trace (snd (metaFetch_loop up rq m (Suc i) (emit (Sleep (retry_delay res)) (emit (Fetch rq) w))))
            = trace (emit (Sleep (retry_delay res)) (emit (Fetch rq) w)) @ es"
        "\<forall>d. Sleep d \<in> set es \<longrightarrow> timer_delay d \<le> 15000"
        "\<forall>r. Fetch r \<in> set es \<longrightarrow> r = rq"
        "length (filter is_Fetch es) \<le> Suc m - Suc i"
      by blast
    show ?thesis
      apply (rule exI[of _ "Fetch rq # Sleep (retry_delay res) # es"])
      using es timer_retry_delay[of res] retry by (auto simp: loop_202)
  qed (auto simp add: loop_stop loop_rejected loop_error loop_ok split: body.splits)
qed

lemma fetch_count_append:
  "trace w' = trace w @ es \<Longrightarrow> fetch_count w' = fetch_count w + length (filter is_Fetch es)"
  by (simp add: fetch_count_def)

lemma new_events_append: "trace w' = trace w @ es \<Longrightarrow> new_events w w' = es"
  by (simp add: new_events_def)

lemma metaFetch_loop_count_le:
  "fetch_count (snd (metaFetch_loop up rq m i w)) \<le> fetch_count w + (Suc m - i)"
  using metaFetch_loop_trace[of up rq m i w] by (auto simp: fetch_count_append)

lemma metaFetch_loop_count_ge:
  "fetch_count w \<le> fetch_count (snd (metaFetch_loop up rq m i w))"
  using metaFetch_loop_trace[of up rq m i w] by (auto simp: fetch_count_append)

lemma metaFetch_loop_count_step:
  assumes "i \<le> m"
  shows "Suc (fetch_count w) \<le> fetch_count (snd (metaFetch_loop up rq m i w))"
proof (cases rule: loop_cases[where i=i and m=m and up=up and w=w])
  case (retry res)
  have "fetch_count (emit (Sleep (retry_delay res)) (emit (Fetch rq) w))
          \<le> fetch_count (snd (metaFetch_loop up rq m (Suc i) (emit (Sleep (retry_delay res)) (emit (Fetch rq) w))))"
    by (rule metaFetch_loop_count_ge)
  with retry show ?thesis by (simp add: loop_202)
qed (use assms in \<open>simp_all add: loop_rejected loop_error loop_ok split: body.splits\<close>)

lemma loop_all_202:
  assumes "\<forall>n. \<exists>res. up n = Responded res \<and> res_status res = 202"
  shows "fst (metaFetch_loop up rq m i w) = Inl still_processing \<and>
         fetch_count (snd (metaFetch_loop up rq m i w)) = fetch_count w + (Suc m - i)"
  using assms
proof (induction up rq m i w rule: metaFetch_loop.induct)
  case (1 up rq m i w)
  show ?case
  proof (cases "i \<le> m")
    case False
    then show ?thesis by (simp add: loop_stop)
  next
    case True
    from "1.prems" obtain res where res: "up (fetch_count w) = Responded res" "res_status res = 202"
      by blast
    from "1.IH"[OF True res "1.prems"] True res show ?thesis
      by (simp add: loop_202)
  qed
qed

lemma loop_skip_202:
  assumes "\<forall>j<k. \<exists>r. up (fetch_count w + j) = Responded r \<and> res_status r = 202" "i + k \<le> m"
  shows "\<exists>w'. metaFetch_loop up rq m i w = metaFetch_loop up rq m (i + k) w' \<and>
              fetch_count w' = fetch_count w + k \<and> users w' = users w"
  using assms
proof (induction k arbitrary: i w)
  case 0
  then show ?case by auto
next
  case (Suc k)
  from Suc.prems(1) obtain r where r: "up (fetch_count w) = Responded r" "res_status r = 202"
    by force
  let ?w1 = "emit (Sleep (retry_delay r)) (emit (Fetch rq) w)"
  have step: "metaFetch_loop up rq m i w = metaFetch_loop up rq m (Suc i) ?w1"
    using Suc.prems(2) r by (simp add: loop_202)
  have "\<forall>j<k. \<exists>r. up (fetch_count ?w1 + j) = Responded r \<and> res_status r = 202"
    using Suc.prems(1) by auto
  moreover have "Suc i + k \<le> m" using Suc.prems(2) by simp
  ultimately obtain w' where
    "metaFetch_loop up rq m (Suc i) ?w1 = metaFetch_loop up rq m (Suc i + k) w'"
    "fetch_count w' = fetch_count ?w1 + k" "users w' = users ?w1"
    using Suc.IH[of ?w1 "Suc i"] by blast
  with step show ?case by (intro exI[of _ w']) simp
qed

text \<open>The exception thrown for a response that is not ok, case by case.\<close>

lemma not_ok_error_char:
  "not_ok_error res =
     (case res_body res of
        Malformed d \<Rightarrow> Error (''HTTP '' @ show_nat (res_status res)) (Some (res_status res))
      | Json v \<Rightarrow>
          if truthy (own_prop v ''message'') then
            (case String_js (own_prop v ''message'') of
               Inr m \<Rightarrow> Error m (Some (res_status res))
             | Inl e \<Rightarrow> TypeError ''Cannot convert object to primitive value'')
          else Error (''HTTP '' @ show_nat (res_status res)) (Some (res_status res)))"
proof (cases "res_body res")
  case (Malformed d)
  then show ?thesis
    by (simp add: not_ok_error_def error_msg_def Let_def String_js_def)
next
  case (Json v)
  show ?thesis
  proof (cases "truthy (own_prop v ''message'')")
    case True
    then have nn: "v \<noteq> JNull" by auto
    show ?thesis
    proof (cases "String_js (own_prop v ''message'')")
      case (Inl e)
      with String_js_Inl[OF Inl] Json True nn show ?thesis
        by (simp add: not_ok_error_def error_msg_def Let_def get_prop_def js_or_def cannot_convert_def)
    next
      case (Inr m)
      with Json True nn show ?thesis
        by (simp add: not_ok_error_def error_msg_def Let_def get_prop_def js_or_def)
    qed
  next
    case False
    with Json show ?thesis
      by (simp add: not_ok_error_def error_msg_def Let_def get_prop_def js_or_def String_js_def)
  qed
qed

section \<open>The claims about the Upstream Client\<close>

text \<open>The equations that evaluate a call of \<open>metaFetch\<close> on a concrete script.\<close>

lemmas ex_eval =
  metaFetch_def metaFetch_loop.simps fetch_request_def maxRetries_of_def method_of_def body_of_def
  no_opts_def retries0_def fetch_count_def emit_def Let_def res_ok_def
  retry_delay_def parseInt_def is_space_def is_digit_def digits_val_def digit_val_def
  not_ok_error_def error_msg_def get_prop_def js_or_def String_js_def show_nat.simps
  cannot_convert_def ex_response_def

text \<open>
  C2, as stated, bounds the attempts by \<open>maxRetries\<close>. With the default budget of 5 and
  an upstream that answers 202 to everything, the client sends six requests.
\<close>

theorem C2_counterexample:
  "\<not> fetch_count (snd (metaFetch ex_always_202 ''https://x'' ''t'' no_opts ex_world0))
       \<le> maxRetries_of no_opts"
  by (simp add: ex_eval ex_always_202_def ex_world0_def)

text \<open>
  C2 (amended): when every response has status 202, the client sends exactly
  \<open>maxRetries + 1\<close> requests (the loop runs for \<^verbatim>\<open>i = 0 .. maxRetries\<close>) and then fails
  with the still-processing error, which carries no status and so differs from every
  upstream error (an \<open>Error\<close> with a status) and from every transport error (whatever
  the fetch library raises: a \<open>FetchError\<close>, a \<open>TypeError\<close> or a \<open>SyntaxError\<close>).
\<close>

theorem C2_all_202_budget:
  assumes "\<forall>n. \<exists>res. up n = Responded res \<and> res_status res = 202"
  shows "fetch_count (snd (metaFetch up url token opts w)) = fetch_count w + maxRetries_of opts + 1 \<and>
         fst (metaFetch up url token opts w) = Inl still_processing \<and>
         status still_processing = None \<and>
         (\<forall>m s. still_processing \<noteq> Error m (Some s)) \<and>
         (\<forall>m. still_processing \<noteq> FetchError m) \<and>
         (\<forall>m. still_processing \<noteq> TypeError m) \<and>
         (\<forall>m. still_processing \<noteq> SyntaxError m)"
  using loop_all_202[OF assms, of _ "maxRetries_of opts" 0 w]
  by (simp add: metaFetch_def still_processing_def)

text \<open>The theorem at \<^verbatim>\<open>retries: 0\<close>: one request, then the still-processing error.\<close>

theorem C2_all_202_budget_witness:
  "(\<forall>n. \<exists>res. ex_always_202 n = Responded res \<and> res_status res = 202) \<and>
   fetch_count (snd (metaFetch ex_always_202 ''https://x'' ''t'' retries0 ex_world0)) = 1 \<and>
   fst (metaFetch ex_always_202 ''https://x'' ''t'' retries0 ex_world0) = Inl still_processing"
proof -
  have h: "\<forall>n. \<exists>res. ex_always_202 n = Responded res \<and> res_status res = 202"
    by (simp add: ex_always_202_def ex_response_def)
  from C2_all_202_budget[OF h, of "''https://x''" "''t''" retries0 ex_world0] h
  show ?thesis
    by (simp add: maxRetries_of_def retries0_def fetch_count_def ex_world0_def)
qed

text \<open>
  C3, as stated, promises at least one retry after a first 202. With \<^verbatim>\<open>retries: 0\<close>
  the client sends one request, sleeps (the hint 60 is clamped to 15 s) and gives up:
  no second request is sent.
\<close>

theorem C3_counterexample:
  "ex_always_202 0 = Responded (ex_response 202 (Some ''60'') (Malformed [])) \<and>
   res_status (ex_response 202 (Some ''60'') (Malformed [])) = 202 \<and>
   new_events ex_world0 (snd (metaFetch ex_always_202 ''https://x'' ''t'' retries0 ex_world0)) =
     [Fetch \<lparr>req_method = ''GET'', req_url = ''https://x'', req_token = ''t'', req_body = None\<rparr>,
      Sleep (Some 15000)]"
  by (simp add: ex_eval ex_always_202_def ex_world0_def new_events_def)

text \<open>
  C3 (amended): when the first response has status 202, the client retries at least
  once provided \<open>maxRetries\<close> is at least 1, sends at most \<open>maxRetries + 1\<close> requests in
  total, and every timer it waits for lasts at most 15 seconds whatever the
  retry-after hint says.
\<close>

theorem C3_first_202:
  assumes "up (fetch_count w) = Responded res" "res_status res = 202"
  shows "(1 \<le> maxRetries_of opts \<longrightarrow>
            fetch_count w + 2 \<le> fetch_count (snd (metaFetch up url token opts w))) \<and>
         fetch_count (snd (metaFetch up url token opts w)) \<le> fetch_count w + (maxRetries_of opts + 1) \<and>
         (\<forall>d. Sleep d \<in> set (new_events w (snd (metaFetch up url token opts w))) \<longrightarrow>
               timer_delay d \<le> 15000)"
proof -
  let ?rq = "fetch_request url token opts"
  let ?w1 = "emit (Sleep (retry_delay res)) (emit (Fetch ?rq) w)"
  have step: "metaFetch up url token opts w = metaFetch_loop up ?rq (maxRetries_of opts) (Suc 0) ?w1"
    using assms by (simp add: metaFetch_def loop_202)
  have a: "1 \<le> maxRetries_of opts \<longrightarrow>
            fetch_count w + 2 \<le> fetch_count (snd (metaFetch up url token opts w))"
    using metaFetch_loop_count_step[of "Suc 0" "maxRetries_of opts" ?w1 up ?rq]
    by (auto simp: step)
  have b: "fetch_count (snd (metaFetch up url token opts w)) \<le> fetch_count w + (maxRetries_of opts + 1)"
    using metaFetch_loop_count_le[of up ?rq "maxRetries_of opts" 0 w]
    by (simp add: metaFetch_def)
  obtain es where es: "trace (snd (metaFetch up url token opts w)) = trace w @ es"
      "\<forall>d. Sleep d \<in> set es \<longrightarrow> timer_delay d \<le> 15000"
    using metaFetch_loop_trace[of up ?rq "maxRetries_of opts" 0 w]
    by (auto simp: metaFetch_def)
  have c: "\<forall>d. Sleep d \<in> set (new_events w (snd (metaFetch up url token opts w))) \<longrightarrow>
               timer_delay d \<le> 15000"
    using es by (simp add: new_events_append)
  from a b c show ?thesis by blast
qed

text \<open>The theorem on a 202 followed by a 404, with the default budget.\<close>

theorem C3_first_202_witness:
  "ex_202_then_404 (fetch_count ex_world0) = Responded (ex_response 202 None (Malformed [])) \<and>
   res_status (ex_response 202 None (Malformed [])) = 202 \<and>
   fetch_count (snd (metaFetch ex_202_then_404 ''https://x'' ''t'' no_opts ex_world0)) = 2 \<and>
   new_events ex_world0 (snd (metaFetch ex_202_then_404 ''https://x'' ''t'' no_opts ex_world0)) =
     [Fetch \<lparr>req_method = ''GET'', req_url = ''https://x'', req_token = ''t'', req_body = None\<rparr>,
      Sleep (Some 5000),
      Fetch \<lparr>req_method = ''GET'', req_url = ''https://x'', req_token = ''t'', req_body = None\<rparr>]"
proof -
  have h: "ex_202_then_404 (fetch_count ex_world0) = Responded (ex_response 202 None (Malformed []))"
    by (simp add: ex_202_then_404_def fetch_count_def ex_world0_def)
  have h2: "res_status (ex_response 202 None (Malformed [])) = 202"
    by (simp add: ex_response_def)
  have "(1 \<le> maxRetries_of no_opts \<longrightarrow>
            fetch_count ex_world0 + 2 \<le> fetch_count (snd (metaFetch ex_202_then_404 ''https://x'' ''t'' no_opts ex_world0)))"
    using C3_first_202[where up=ex_202_then_404 and w=ex_world0 and opts=no_opts
        and url="''https://x''" and token="''t''"
        and res="ex_response 202 None (Malformed [])", OF h h2]
    by simp
  moreover have "new_events ex_world0 (snd (metaFetch ex_202_then_404 ''https://x'' ''t'' no_opts ex_world0)) =
     [Fetch \<lparr>req_method = ''GET'', req_url = ''https://x'', req_token = ''t'', req_body = None\<rparr>,
      Sleep (Some 5000),
      Fetch \<lparr>req_method = ''GET'', req_url = ''https://x'', req_token = ''t'', req_body = None\<rparr>]"
    by (simp add: ex_eval ex_202_then_404_def ex_world0_def new_events_def)
  moreover have "fetch_count (snd (metaFetch ex_202_then_404 ''https://x'' ''t'' no_opts ex_world0)) = 2"
    by (simp add: ex_eval ex_202_then_404_def ex_world0_def)
  ultimately show ?thesis using h h2 by simp
qed

text \<open>
  C4, as stated, takes the message from the body's message field whenever the body has
  one, and always carries the status. A body \<^verbatim>\<open>{"message": ""}\<close> has the field, yet
  the error says \<^verbatim>\<open>HTTP 500\<close>; and on a body \<^verbatim>\<open>{"message": {"toString": 1}}\<close> the
  message has no string form, \<^verbatim>\<open>new Error(msg)\<close> itself raises, and the failure is a
  \<open>TypeError\<close> that carries no status.
\<close>

theorem C4_counterexample:
  "ex_500_empty_message 0 = Responded (ex_response 500 None (Json (JObj [(''message'', JStr [])]))) \<and>
   fst (metaFetch ex_500_empty_message ''https://x'' ''t'' no_opts ex_world0)
     = Inl (Error ''HTTP 500'' (Some 500)) \<and>
   ex_500_object_message 0 =
     Responded (ex_response 500 None (Json (JObj [(''message'', JObj [(''toString'', JNum ''1'')])]))) \<and>
   fst (metaFetch ex_500_object_message ''https://x'' ''t'' no_opts ex_world0)
     = Inl (TypeError ''Cannot convert object to primitive value'') \<and>
   status (TypeError ''Cannot convert object to primitive value'') = None"
  by (simp add: ex_eval ex_500_empty_message_def ex_500_object_message_def ex_world0_def)

text \<open>
  C4 (amended): when the first response that is not a 202 arrives within the budget
  and its status is below 200 or above 299, the call fails. When the body does not parse,
  has no message field, or has a falsy one (empty string, null, false, 0), the error
  carries the status and the message \<^verbatim>\<open>HTTP {status}\<close>. When the body parses and its
  message field is truthy, the error carries the status and the string form of that
  field, unless the field has no string form (an object with a property named
  \<^verbatim>\<open>toString\<close>, alone or inside an array): then the failure is the engine's
  \<open>TypeError\<close>, which carries no status.
\<close>

theorem C4_upstream_error:
  assumes "k \<le> maxRetries_of opts"
    and "\<forall>j<k. \<exists>r. up (fetch_count w + j) = Responded r \<and> res_status r = 202"
    and "up (fetch_count w + k) = Responded res"
    and "res_status res < 200 \<or> 299 < res_status res"
  shows "fst (metaFetch up url token opts w) =
           Inl (case res_body res of
                  Malformed d \<Rightarrow> Error (''HTTP '' @ show_nat (res_status res)) (Some (res_status res))
                | Json v \<Rightarrow>
                    if truthy (own_prop v ''message'') then
                      (case String_js (own_prop v ''message'') of
                         Inr m \<Rightarrow> Error m (Some (res_status res))
                       | Inl e \<Rightarrow> TypeError ''Cannot convert object to primitive value'')
                    else Error (''HTTP '' @ show_nat (res_status res)) (Some (res_status res)))"
proof -
  let ?rq = "fetch_request url token opts"
  from loop_skip_202[OF assms(2), of 0 "maxRetries_of opts" ?rq] assms(1)
  obtain w' where w': "metaFetch_loop up ?rq (maxRetries_of opts) 0 w
                        = metaFetch_loop up ?rq (maxRetries_of opts) k w'"
      "fetch_count w' = fetch_count w + k"
    by auto
  have "\<not> res_ok res" using assms(4) by (auto simp: res_ok_def)
  then have "metaFetch_loop up ?rq (maxRetries_of opts) k w'
          = (Inl (not_ok_error res), emit (Fetch ?rq) w')"
    using assms(1,3) w'(2) by (simp add: loop_error)
  with w'(1) show ?thesis
    by (simp add: metaFetch_def not_ok_error_char)
qed

text \<open>The theorem on a 202 followed by a 404 whose body carries a message.\<close>

theorem C4_upstream_error_witness:
  "(1::nat) \<le> maxRetries_of no_opts \<and>
   (\<exists>r. ex_202_then_404 (fetch_count ex_world0) = Responded r \<and> res_status r = 202) \<and>
   ex_202_then_404 (fetch_count ex_world0 + 1) =
     Responded (ex_response 404 None (Json (JObj [(''message'', JStr ''Account not found'')]))) \<and>
   299 < res_status (ex_response 404 None (Json (JObj [(''message'', JStr ''Account not found'')]))) \<and>
   fst (metaFetch ex_202_then_404 ''https://x'' ''t'' no_opts ex_world0)
     = Inl (Error ''Account not found'' (Some 404))"
proof -
  let ?res = "ex_response 404 None (Json (JObj [(''message'', JStr ''Account not found'')]))"
  have h1: "(1::nat) \<le> maxRetries_of no_opts"
    by (simp add: maxRetries_of_def no_opts_def)
  have h2: "\<forall>j<1. \<exists>r. ex_202_then_404 (fetch_count ex_world0 + j) = Responded r \<and> res_status r = 202"
    by (simp add: ex_202_then_404_def fetch_count_def ex_world0_def ex_response_def)
  have h3: "ex_202_then_404 (fetch_count ex_world0 + 1) = Responded ?res"
    by (simp add: ex_202_then_404_def fetch_count_def ex_world0_def)
  have h4': "299 < res_status ?res"
    by (simp add: ex_response_def)
  then have h4: "res_status ?res < 200 \<or> 299 < res_status ?res" ..

  have b: "res_body ?res = Json (JObj [(''message'', JStr ''Account not found'')])"
          "res_status ?res = 404"
    by (simp_all add: ex_response_def)
  from C4_upstream_error[where up=ex_202_then_404 and w=ex_world0 and opts=no_opts and k=1
        and url="''https://x''" and token="''t''", OF h1 h2 h3 h4] h1 h2 h3 h4'
  show ?thesis by (simp add: b String_js_def)
qed

section \<open>The claims about the Account Workflow\<close>

subsection \<open>Facts about one call of metaFetch\<close>

lemma metaFetch_users: "users (snd (metaFetch up url token opts w)) = users w"
  by (simp add: metaFetch_def metaFetch_loop_users)


lemma metaFetch_store_check:
  "metaFetch up url token opts w = (r, w') \<Longrightarrow> store_check w' = store_check w"
  using metaFetch_loop_users[of up "fetch_request url token opts" "maxRetries_of opts" 0 w]
  by (simp add: metaFetch_def)

lemma metaFetch_trace:
  "\<exists>es. trace (snd (metaFetch up url token opts w)) = trace w @ Fetch (fetch_request url token opts) # es \<and>
        (\<forall>r. Fetch r \<in> set es \<longrightarrow> r = fetch_request url token opts)"
proof -
  let ?rq = "fetch_request url token opts"
  let ?m = "maxRetries_of opts"
  show ?thesis
  proof (cases rule: loop_cases[where i=0 and m="?m" and up=up and w=w])
    case (retry res)
    obtain es where "trace (snd (metaFetch_loop up ?rq ?m (Suc 0) (emit (Sleep (retry_delay res)) (emit (Fetch ?rq) w))))
        = trace (emit (Sleep (retry_delay res)) (emit (Fetch ?rq) w)) @ es"
        "\<forall>r. Fetch r \<in> set es \<longrightarrow> r = ?rq"
      using metaFetch_loop_trace[of up ?rq ?m "Suc 0" "emit (Sleep (retry_delay res)) (emit (Fetch ?rq) w)"]
      by blast
    with retry show ?thesis
      by (intro exI[of _ "Sleep (retry_delay res) # es"]) (simp add: metaFetch_def loop_202)
  qed (auto simp: metaFetch_def loop_rejected loop_error loop_ok split: body.splits)
qed

lemma metaFetch_once:
  assumes "maxRetries_of opts = 0"
  shows "metaFetch up url token opts w =
     (case up (fetch_count w) of
        Rejected u c \<Rightarrow> (Inl (TypeError ''fetch failed''), emit (Fetch (fetch_request url token opts)) w)
      | Responded res \<Rightarrow>
          if res_status res = 202
          then (Inl still_processing,
                emit (Sleep (retry_delay res)) (emit (Fetch (fetch_request url token opts)) w))
          else if \<not> res_ok res
          then (Inl (not_ok_error res), emit (Fetch (fetch_request url token opts)) w)
          else (case res_body res of
                  Malformed d \<Rightarrow> (Inl (SyntaxError d), emit (Fetch (fetch_request url token opts)) w)
                | Json v \<Rightarrow> (Inr v, emit (Fetch (fetch_request url token opts)) w)))"
  unfolding metaFetch_def assms
  by (subst metaFetch_loop.simps) (simp add: loop_stop split: fetch_result.splits)

lemma maxRetries_simps [simp]:
  "maxRetries_of retries0 = 0" "maxRetries_of delete_opts = 0" "maxRetries_of enable_opts = 0"
  "maxRetries_of (create_opts b) = 0" "maxRetries_of no_opts = 5"
  by (simp_all add: maxRetries_of_def retries0_def delete_opts_def enable_opts_def create_opts_def no_opts_def)


lemma requireAuth_Some: "call_auth request = Some a \<Longrightarrow> requireAuth request = Inr (auth_uid a)"
  by (simp add: requireAuth_def)

subsection \<open>Disconnect\<close>

lemmas ex_eval2 = ex_eval field_of_def update_doc_def disconnect_update_def delete_opts_def
  requireAuth_def account_url_def URLS_provisioning_def REGION_def disconnect_remote_def

lemma disconnect_remote_users: "users (disconnect_remote up token ident w) = users w"
  by (simp add: disconnect_remote_def metaFetch_users split: sum.splits)

text \<open>
  C1, as stated, has Disconnect remove the platform field. On a linked record with
  platform \<^verbatim>\<open>mt5\<close> the field is still there after the call.
\<close>

theorem C1_counterexample:
  "field_of ex_linked ''u1'' ''platform'' = Some (JStr ''mt5'') \<and>
   field_of (snd (disconnectBroker (ex_always_ok (JObj [])) ''t'' 200 (ex_call JNull) ex_linked))
      ''u1'' ''platform'' = Some (JStr ''mt5'')"
  by (simp add: disconnectBroker_def ex_eval2 ex_linked_def ex_doc_def ex_call_def ex_always_ok_def)

text \<open>
  C1 (amended): for every authenticated caller Disconnect returns \<^verbatim>\<open>{ok: true}\<close>. When
  the stored record has no (truthy) account identifier the world is unchanged: no
  request is sent and nothing is written. When it has one, the account-identifier,
  server and login fields are removed, the disconnection timestamp is stamped, and
  every other field (platform, email, the connection timestamp, ...) and every other
  user's record is unchanged.
\<close>

theorem C1_disconnect:
  assumes "call_auth request = Some a"
  shows "fst (disconnectBroker up token now request w) = Inr (JObj [(''ok'', JBool True)]) \<and>
         (\<not> truthy (field_of w (auth_uid a) ''metaApiAccountId'') \<longrightarrow>
            snd (disconnectBroker up token now request w) = w) \<and>
         (truthy (field_of w (auth_uid a) ''metaApiAccountId'') \<longrightarrow>
            (\<forall>k. field_of (snd (disconnectBroker up token now request w)) (auth_uid a) k =
                    (if k \<in> {''metaApiAccountId'', ''brokerServer'', ''mtLogin''} then None
                     else if k = ''disconnectedAt'' then Some (serverTimestamp now)
                     else field_of w (auth_uid a) k)) \<and>
            users (snd (disconnectBroker up token now request w)) (auth_uid a) \<noteq> None \<and>
            (\<forall>u. u \<noteq> auth_uid a \<longrightarrow>
                   users (snd (disconnectBroker up token now request w)) u = users w u))"
proof (cases "users w (auth_uid a)")
  case None
  with assms show ?thesis
    by (simp add: disconnectBroker_def requireAuth_def field_of_def)
next
  case (Some d)
  show ?thesis
  proof (cases "truthy (d ''metaApiAccountId'')")
    case False
    with Some assms show ?thesis
      by (simp add: disconnectBroker_def requireAuth_def field_of_def)
  next
    case True
    define w1 where "w1 = disconnect_remote up token (d ''metaApiAccountId'') w"
    have u1: "users w1 = users w" by (simp add: w1_def disconnect_remote_users)
    have res: "disconnectBroker up token now request w =
        (Inr (JObj [(''ok'', JBool True)]),
         w1\<lparr>users := (users w1)(auth_uid a \<mapsto> disconnect_update now d)\<rparr>)"
      using assms Some True u1
      by (simp add: disconnectBroker_def requireAuth_def update_doc_def w1_def[symmetric] Let_def)
    show ?thesis
      using Some True u1
      by (simp add: res field_of_def disconnect_update_def)
  qed
qed

text \<open>The theorem on a linked record and on an empty store.\<close>

theorem C1_disconnect_witness:
  "call_auth (ex_call JNull) = Some \<lparr>auth_uid = ''u1'', auth_email = Some ''a@b.c''\<rparr> \<and>
   truthy (field_of ex_linked ''u1'' ''metaApiAccountId'') \<and>
   fst (disconnectBroker (ex_always_ok (JObj [])) ''t'' 200 (ex_call JNull) ex_linked)
     = Inr (JObj [(''ok'', JBool True)]) \<and>
   field_of (snd (disconnectBroker (ex_always_ok (JObj [])) ''t'' 200 (ex_call JNull) ex_linked))
      ''u1'' ''metaApiAccountId'' = None \<and>
   field_of (snd (disconnectBroker (ex_always_ok (JObj [])) ''t'' 200 (ex_call JNull) ex_linked))
      ''u1'' ''email'' = Some (JStr ''a@b.c'') \<and>
   \<not> truthy (field_of ex_world0 ''u1'' ''metaApiAccountId'') \<and>
   snd (disconnectBroker (ex_always_ok (JObj [])) ''t'' 200 (ex_call JNull) ex_world0) = ex_world0"
proof -
  have h: "call_auth (ex_call JNull) = Some \<lparr>auth_uid = ''u1'', auth_email = Some ''a@b.c''\<rparr>"
    by (simp add: ex_call_def)
  have t: "truthy (field_of ex_linked ''u1'' ''metaApiAccountId'')"
    by (simp add: field_of_def ex_linked_def ex_doc_def)
  have f: "\<not> truthy (field_of ex_world0 ''u1'' ''metaApiAccountId'')"
    by (simp add: field_of_def ex_world0_def)
  have e: "field_of ex_linked ''u1'' ''email'' = Some (JStr ''a@b.c'')"
    by (simp add: field_of_def ex_linked_def ex_doc_def)
  from C1_disconnect[OF h, of "ex_always_ok (JObj [])" "''t''" 200 ex_linked]
       C1_disconnect[OF h, of "ex_always_ok (JObj [])" "''t''" 200 ex_world0] h t f e
  show ?thesis by simp
qed

subsection \<open>Connect: the existing link\<close>

lemma account_url_literal:
  "account_url s = ''https://mt-provisioning-api-v1.london.agiliumtrade.ai/users/current/accounts/'' @ s"
  by (simp add: account_url_def URLS_provisioning_def REGION_def)

lemma fetch_request_retries0:
  "fetch_request url token retries0 = \<lparr>req_method = ''GET'', req_url = url, req_token = token, req_body = None\<rparr>"
  by (simp add: fetch_request_def retries0_def method_of_def body_of_def)

lemma fetch_request_lookup:
  "fetch_request (account_url s) token retries0 = lookup_request token s"
  unfolding fetch_request_retries0 lookup_request_def account_url_literal ..

lemma destructure_args:
  assumes "truthy (own_prop d ''brokerServer'')"
  shows "destructure src d = Inr (own_prop d ''brokerServer'', own_prop d ''mtLogin'',
                                 own_prop d ''mtPassword'', own_prop d ''platform'')"
proof -
  have "d \<noteq> JNull" using assms by auto
  then show ?thesis by (simp add: destructure_def)
qed

text \<open>
  C5: for an authenticated caller with the three required inputs, whose stored record
  holds an account identifier (with string form \<open>ident\<close>) and whose lookup is answered
  with a 2xx status other than 202 and an account as JSON body, Connect returns the
  success payload, leaves the store unchanged and sends the one lookup request and
  nothing else (so no create request).
\<close>

theorem C5_connect_idempotent:
  assumes auth: "call_auth request = Some a"
    and args: "truthy (own_prop (call_data request) ''brokerServer'')"
              "truthy (own_prop (call_data request) ''mtLogin'')"
              "truthy (own_prop (call_data request) ''mtPassword'')"
    and link: "users w (auth_uid a) = Some d" "truthy (d ''metaApiAccountId'')"
              "String_js (d ''metaApiAccountId'') = Inr ident"
    and lookup: "up (fetch_count w) = Responded res" "res_ok res" "res_status res \<noteq> 202"
                "res_body res = Json acct" "acct \<noteq> JNull"
  shows "fst (connectBroker up token now request w) =
           Inr (JObj (obj [(''success'', Some (JBool True)),
                           (''message'', Some (JStr ''Cuenta ya vinculada'')),
                           (''state'', own_prop acct ''state'')])) \<and>
         users (snd (connectBroker up token now request w)) = users w \<and>
         new_events w (snd (connectBroker up token now request w)) =
           [Fetch (lookup_request token ident)]"
proof -
  have mf: "metaFetch up (account_url ident) token retries0 w =
            (Inr acct, emit (Fetch (lookup_request token ident)) w)"
    using lookup by (simp add: metaFetch_once fetch_request_lookup)
  have lk: "connect_lookup up token (auth_uid a) w =
      (Some (JObj (obj [(''success'', Some (JBool True)),
                        (''message'', Some (JStr ''Cuenta ya vinculada'')),
                        (''state'', own_prop acct ''state'')])),
       emit (Fetch (lookup_request token ident)) w)"
    using link lookup(5) by (simp add: connect_lookup_def mf get_prop_def)
  have "connectBroker up token now request w =
      (Inr (JObj (obj [(''success'', Some (JBool True)),
                        (''message'', Some (JStr ''Cuenta ya vinculada'')),
                        (''state'', own_prop acct ''state'')])),
       emit (Fetch (lookup_request token ident)) w)"
    using auth args by (simp add: connectBroker_def requireAuth_def destructure_args lk)
  then show ?thesis by (simp add: new_events_def)
qed

text \<open>The theorem on a linked user whose account the upstream reports as deployed.\<close>

theorem C5_connect_idempotent_witness:
  "call_auth (ex_call ex_connect_data) = Some \<lparr>auth_uid = ''u1'', auth_email = Some ''a@b.c''\<rparr> \<and>
   users ex_linked ''u1'' = Some ex_doc \<and> truthy (ex_doc ''metaApiAccountId'') \<and>
   String_js (ex_doc ''metaApiAccountId'') = Inr ''acc-1'' \<and>
   ex_always_ok ex_account (fetch_count ex_linked) = Responded (ex_response 200 None (Json ex_account)) \<and>
   res_ok (ex_response 200 None (Json ex_account)) \<and>
   fst (connectBroker (ex_always_ok ex_account) ''t'' 200 (ex_call ex_connect_data) ex_linked) =
     Inr (JObj [(''success'', JBool True), (''message'', JStr ''Cuenta ya vinculada''),
                (''state'', JStr ''DEPLOYED'')]) \<and>
   trace (snd (connectBroker (ex_always_ok ex_account) ''t'' 200 (ex_call ex_connect_data) ex_linked)) =
     [Fetch (lookup_request ''t'' ''acc-1'')] \<and>
   users (snd (connectBroker (ex_always_ok ex_account) ''t'' 200 (ex_call ex_connect_data) ex_linked)) =
     [''u1'' \<mapsto> ex_doc]"
proof -
  let ?res = "ex_response 200 None (Json ex_account)"
  have auth: "call_auth (ex_call ex_connect_data) = Some \<lparr>auth_uid = ''u1'', auth_email = Some ''a@b.c''\<rparr>"
    by (simp add: ex_call_def)
  have args: "truthy (own_prop (call_data (ex_call ex_connect_data)) ''brokerServer'')"
              "truthy (own_prop (call_data (ex_call ex_connect_data)) ''mtLogin'')"
              "truthy (own_prop (call_data (ex_call ex_connect_data)) ''mtPassword'')"
    by (simp_all add: ex_call_def ex_connect_data_def)
  have link: "users ex_linked (auth_uid \<lparr>auth_uid = ''u1'', auth_email = Some ''a@b.c''\<rparr>) = Some ex_doc"
     "truthy (ex_doc ''metaApiAccountId'')"
     "String_js (ex_doc ''metaApiAccountId'') = Inr ''acc-1''"
    by (simp_all add: ex_linked_def ex_doc_def String_js_def)
  have lookup: "ex_always_ok ex_account (fetch_count ex_linked) = Responded ?res"
     "res_ok ?res" "res_status ?res \<noteq> 202" "res_body ?res = Json ex_account" "ex_account \<noteq> JNull"
    by (simp_all add: ex_always_ok_def res_ok_def ex_account_def ex_response_def)
  have tr: "trace ex_linked = []" "users ex_linked = [''u1'' \<mapsto> ex_doc]"
    by (simp_all add: ex_linked_def)
  note th = C5_connect_idempotent[where request="ex_call ex_connect_data" and w=ex_linked and d=ex_doc
         and up="ex_always_ok ex_account" and acct=ex_account and token="''t''" and now=200,
         OF auth args link lookup]
  have a: "fst (connectBroker (ex_always_ok ex_account) ''t'' 200 (ex_call ex_connect_data) ex_linked) =
     Inr (JObj [(''success'', JBool True), (''message'', JStr ''Cuenta ya vinculada''),
                 (''state'', JStr ''DEPLOYED'')])"
    using th[THEN conjunct1] by (simp add: ex_account_def)
  have b: "users (snd (connectBroker (ex_always_ok ex_account) ''t'' 200 (ex_call ex_connect_data) ex_linked)) =
     [''u1'' \<mapsto> ex_doc]"
    using th[THEN conjunct2, THEN conjunct1] by (simp add: tr)
  have c: "trace (snd (connectBroker (ex_always_ok ex_account) ''t'' 200 (ex_call ex_connect_data) ex_linked)) =
     [Fetch (lookup_request ''t'' ''acc-1'')]"
    using th[THEN conjunct2, THEN conjunct2] by (simp add: new_events_def tr)
  from a b c show ?thesis
    using auth link lookup(1,2) by simp
qed

subsection \<open>Connect: the deployment wait\<close>

lemma spaced_Sleep: "spaced es \<Longrightarrow> spaced (Sleep d # es)"
  by (cases es rule: spaced.cases) auto


lemma is_deployed_iff:
  "is_deployed st = Inr True \<longleftrightarrow>
     own_prop st ''state'' = Some (JStr ''DEPLOYED'') \<or>
     own_prop st ''connectionStatus'' = Some (JStr ''CONNECTED'')"
  by (cases "st = JNull") (auto simp: is_deployed_def get_prop_def)

lemma poll_stop: "\<not> i < 30 \<Longrightarrow> poll_deploy up url token i w = (False, w)"
  by (subst poll_deploy.simps) simp

lemma poll_step:
  assumes "i < 30" "metaFetch up u token retries0 (emit (Sleep (Some 2000)) w) = (r, w1)"
  shows "poll_deploy up (Inr u) token i w =
           (if \<exists>st. r = Inr st \<and> is_deployed st = Inr True then (True, w1)
            else poll_deploy up (Inr u) token (Suc i) w1)"
  using assms
  by (subst poll_deploy.simps) (auto split: sum.splits)

lemma poll_step_no_url:
  "i < 30 \<Longrightarrow> poll_deploy up (Inl e) token i w =
                poll_deploy up (Inl e) token (Suc i) (emit (Sleep (Some 2000)) w)"
  by (subst poll_deploy.simps) simp

lemma poll_round:
  assumes "metaFetch up u token retries0 (emit (Sleep (Some 2000)) w) = (r, w1)"
  shows "users w1 = users w \<and> store_check w1 = store_check w \<and>
         fetch_count w1 = Suc (fetch_count w) \<and>
         (\<exists>tl. trace w1 = trace w @ Sleep (Some 2000) # Fetch (fetch_request u token retries0) # tl \<and>
               (tl = [] \<or> (\<exists>d. tl = [Sleep d]))) \<and>
         ((\<exists>st. r = Inr st \<and> is_deployed st = Inr True) \<longleftrightarrow> reports_deployed (up (fetch_count w)))"
  using assms
  by (auto simp: metaFetch_once reports_deployed_def still_processing_def res_ok_def is_deployed_iff
           split: fetch_result.splits if_splits body.splits)

lemma poll_deploy_spec:
  "poll_deploy up (Inr u) token i w = (d, w') \<Longrightarrow>
     users w' = users w \<and> store_check w' = store_check w \<and>
     (\<exists>es. trace w' = trace w @ es \<and> spaced es \<and>
           (\<forall>r. Fetch r \<in> set es \<longrightarrow> r = fetch_request u token retries0)) \<and>
     fetch_count w' \<le> fetch_count w + (30 - i) \<and>
     (\<not> d \<longrightarrow> fetch_count w' = fetch_count w + (30 - i)) \<and>
     (d \<longrightarrow> fetch_count w < fetch_count w') \<and>
     (\<forall>n. fetch_count w \<le> n \<and> n < fetch_count w' \<longrightarrow>
          (reports_deployed (up n) \<longleftrightarrow> d \<and> Suc n = fetch_count w'))"
proof (induction "30 - i" arbitrary: i w)
  case 0
  then have "\<not> i < 30" by simp
  with 0 show ?case by (auto simp: poll_stop)
next
  case (Suc k)
  then have i: "i < 30" by simp
  obtain r w1 where mf: "metaFetch up u token retries0 (emit (Sleep (Some 2000)) w) = (r, w1)"
    by (cases "metaFetch up u token retries0 (emit (Sleep (Some 2000)) w)") simp
  from poll_round[OF mf] obtain tl where
    rd: "users w1 = users w" "fetch_count w1 = Suc (fetch_count w)"
        "trace w1 = trace w @ Sleep (Some 2000) # Fetch (fetch_request u token retries0) # tl"
        "tl = [] \<or> (\<exists>d. tl = [Sleep d])"
        "(\<exists>st. r = Inr st \<and> is_deployed st = Inr True) \<longleftrightarrow> reports_deployed (up (fetch_count w))"
        "store_check w1 = store_check w"
    by blast
  show ?case
  proof (cases "\<exists>st. r = Inr st \<and> is_deployed st = Inr True")
    case True
    with poll_step[OF i mf] Suc.prems have dw: "d" "w' = w1" by auto
    have sp: "spaced (Sleep (Some 2000) # Fetch (fetch_request u token retries0) # tl)"
      using rd(4) by auto
    have "\<exists>es. trace w' = trace w @ es \<and> spaced es \<and>
           (\<forall>r. Fetch r \<in> set es \<longrightarrow> r = fetch_request u token retries0)"
      using rd(3,4) sp dw(2)
      by (intro exI[of _ "Sleep (Some 2000) # Fetch (fetch_request u token retries0) # tl"]) auto
    moreover have "\<forall>n. fetch_count w \<le> n \<and> n < fetch_count w' \<longrightarrow>
          (reports_deployed (up n) \<longleftrightarrow> d \<and> Suc n = fetch_count w')"
    proof (intro allI impI)
      fix n assume "fetch_count w \<le> n \<and> n < fetch_count w'"
      then have "n = fetch_count w" using rd(2) dw(2) by simp
      then show "reports_deployed (up n) \<longleftrightarrow> d \<and> Suc n = fetch_count w'"
        using rd(2,5) True dw by simp
    qed
    ultimately show ?thesis using rd(1,2,6) dw i by simp
  next
    case False
    with poll_step[OF i mf] Suc.prems have rec: "poll_deploy up (Inr u) token (Suc i) w1 = (d, w')" by simp
    have k: "k = 30 - Suc i" using Suc.hyps(2) by simp
    from Suc.hyps(1)[OF k rec] obtain es where
      ih: "users w' = users w1" "trace w' = trace w1 @ es" "spaced es"
          "\<forall>r. Fetch r \<in> set es \<longrightarrow> r = fetch_request u token retries0"
          "fetch_count w' \<le> fetch_count w1 + (30 - Suc i)"
          "\<not> d \<longrightarrow> fetch_count w' = fetch_count w1 + (30 - Suc i)"
          "d \<longrightarrow> fetch_count w1 < fetch_count w'"
          "\<forall>n. fetch_count w1 \<le> n \<and> n < fetch_count w' \<longrightarrow>
              (reports_deployed (up n) \<longleftrightarrow> d \<and> Suc n = fetch_count w')"
          "store_check w' = store_check w1"
      by blast
    have sp: "spaced (Sleep (Some 2000) # Fetch (fetch_request u token retries0) # tl @ es)"
      using rd(4) ih(3) by (auto simp: spaced_Sleep)
    have "\<exists>es. trace w' = trace w @ es \<and> spaced es \<and>
           (\<forall>r. Fetch r \<in> set es \<longrightarrow> r = fetch_request u token retries0)"
      using rd(3,4) sp ih(2,4)
      by (intro exI[of _ "Sleep (Some 2000) # Fetch (fetch_request u token retries0) # tl @ es"]) auto
    moreover have "\<forall>n. fetch_count w \<le> n \<and> n < fetch_count w' \<longrightarrow>
          (reports_deployed (up n) \<longleftrightarrow> d \<and> Suc n = fetch_count w')"
    proof (intro allI impI)
      fix n assume n: "fetch_count w \<le> n \<and> n < fetch_count w'"
      show "reports_deployed (up n) \<longleftrightarrow> d \<and> Suc n = fetch_count w'"
      proof (cases "n = fetch_count w")
        case True
        have "\<not> (d \<and> Suc n = fetch_count w')"
          using True rd(2) ih(7) by auto
        then show ?thesis using True rd(5) False by simp
      next
        case f: False
        with n rd(2) have "fetch_count w1 \<le> n \<and> n < fetch_count w'" by simp
        with ih(8) show ?thesis by blast
      qed
    qed
    ultimately show ?thesis using rd(1,2,6) ih(1,5,6,7,9) i by auto
  qed
qed

text \<open>When the address cannot be built, every round raises before its request.\<close>

lemma poll_deploy_no_url:
  "poll_deploy up (Inl e) token i w =
     (False, w\<lparr>trace := trace w @ replicate (30 - i) (Sleep (Some 2000))\<rparr>)"
proof (induction "30 - i" arbitrary: i w)
  case 0
  then have "\<not> i < 30" by simp
  with 0 show ?case by (simp add: poll_stop)
next
  case (Suc k)
  then have i: "i < 30" by simp
  have k: "k = 30 - Suc i" using Suc.hyps(2) by simp
  have r: "replicate (30 - i) (Sleep (Some 2000)) = Sleep (Some 2000) # replicate (30 - Suc i) (Sleep (Some 2000))"
    unfolding k[symmetric] Suc.hyps(2)[symmetric] by simp
  show ?case
    unfolding poll_step_no_url[OF i] Suc.hyps(1)[OF k] r
    by (simp add: emit_def)
qed

subsection \<open>Connect: creation\<close>

lemma create_body_login:
  "String_js ml = Inr login \<Longrightarrow>
   create_body bs ml mp pf =
     Inr (JObj (obj [(''name'', Some (JStr (''DON-'' @ login))),
                     (''type'', Some (JStr ''cloud'')),
                     (''login'', Some (JStr login)),
                     (''password'', mp),
                     (''server'', bs),
                     (''platform'', js_or pf (Some (JStr ''mt5''))),
                     (''region'', Some (JStr REGION)),
                     (''application'', Some (JStr ''MetaApi'')),
                     (''magic'', Some (JNum ''0'')),
                     (''metastatsApiEnabled'', Some (JBool True)),
                     (''resourceSlots'', Some (JNum ''1'')),
                     (''copyFactoryRoles'', Some (JArr []))]))"
  by (simp add: create_body_def)

lemma fetch_request_create:
  assumes "String_js ml = Inr login" "create_body bs ml mp pf = Inr b"
  shows "fetch_request accounts_url token (create_opts b) = create_request token bs login mp pf"
proof -
  have "truthy (Some b)" using assms by (auto simp: create_body_login)
  then show ?thesis
    using assms(2) unfolding create_body_login[OF assms(1)]
    by (auto simp: fetch_request_def create_request_def create_opts_def method_of_def body_of_def
                  js_or_def accounts_url_def URLS_provisioning_def REGION_def)
qed

lemma create_catch_no_string_form:
  "create_catch cannot_convert =
     HttpsError ''internal'' ''Error MetaApi: Cannot convert object to primitive value''"
  by (simp add: create_catch_def cannot_convert_def)

lemma set_merge_trace: "set_merge uid fs w = Inr w' \<Longrightarrow> trace w' = trace w"
  by (auto simp: set_merge_def split: option.splits)

lemma poll_deploy_extends:
  "\<exists>es. trace (snd (poll_deploy up url token i w)) = trace w @ es"
proof (cases url)
  case (Inl e)
  then show ?thesis by (simp add: poll_deploy_no_url)
next
  case (Inr u)
  obtain d w' where pd: "poll_deploy up (Inr u) token i w = (d, w')"
    by (cases "poll_deploy up (Inr u) token i w") simp
  from poll_deploy_spec[OF pd] Inr pd show ?thesis by auto
qed

lemma connect_finish_extends:
  "\<exists>es. trace (snd (connect_finish up token now request uid bs ml pf account w2)) = trace w2 @ es"
proof -
  have p: "\<exists>es. trace w4 = trace w2 @ es"
    if "set_merge uid fs w2 = Inr w3" "poll_deploy up url token 0 w3 = (dpl, w4)" for fs w3 url dpl w4
    using poll_deploy_extends[of up url token 0 w3] set_merge_trace[OF that(1)] that(2) by simp
  show ?thesis
    unfolding connect_finish_def
    by (auto split: sum.splits prod.splits dest: p)
qed

lemma connect_create_trace:
  assumes "create_body bs ml mp pf = Inr b"
  shows "\<exists>es. trace (snd (connect_create up token now request uid bs ml mp pf w1)) =
          trace w1 @ Fetch (fetch_request accounts_url token (create_opts b)) # es"
proof -
  obtain r w2 where mf: "metaFetch up accounts_url token (create_opts b) w1 = (r, w2)"
    by (cases "metaFetch up accounts_url token (create_opts b) w1") simp
  obtain es where es: "trace w2 = trace w1 @ Fetch (fetch_request accounts_url token (create_opts b)) # es"
    using metaFetch_trace[of up accounts_url token "create_opts b" w1] mf by auto
  show ?thesis
  proof (cases r)
    case (Inl e)
    with mf es assms show ?thesis by (auto simp: connect_create_def)
  next
    case (Inr account)
    obtain es' where "trace (snd (connect_finish up token now request uid bs ml pf account w2)) = trace w2 @ es'"
      using connect_finish_extends by blast
    with mf es assms Inr show ?thesis by (auto simp: connect_create_def)
  qed
qed

text \<open>
  C9, as stated, has every failed lookup followed by a create request. With a login
  that has no string form (the JSON object \<^verbatim>\<open>{"toString": 1}\<close>, which passes the
  check of the required inputs) and a lookup answered 202, the trace is the lookup and
  the wait the 202 asks for; building the body of the create request raises, no create
  request is sent, and Connect fails.
\<close>

theorem C9_counterexample:
  "truthy (own_prop (call_data (ex_call ex_connect_data_object_login)) ''mtLogin'') \<and>
   ex_always_202 0 = Responded (ex_response 202 (Some ''60'') (Malformed [])) \<and>
   connectBroker ex_always_202 ''t'' 200 (ex_call ex_connect_data_object_login) ex_linked =
     (Inl (HttpsError ''internal'' ''Error MetaApi: Cannot convert object to primitive value''),
      ex_linked\<lparr>trace := [Fetch (lookup_request ''t'' ''acc-1''), Sleep (Some 15000)]\<rparr>)"
proof -
  have fc: "fetch_count ex_linked = 0" by (simp add: fetch_count_def ex_linked_def)
  have u: "users ex_linked ''u1'' = Some ex_doc" by (simp add: ex_linked_def)
  have i: "ex_doc ''metaApiAccountId'' = Some (JStr ''acc-1'')" by (simp add: ex_doc_def)
  have t: "trace ex_linked = []" by (simp add: ex_linked_def)
  have rd: "retry_delay (ex_response 202 (Some ''60'') (Malformed [])) = Some 15000"
    by (simp add: retry_delay_def parseInt_def is_space_def is_digit_def digits_val_def digit_val_def
                  ex_response_def)
  have lk: "connect_lookup ex_always_202 ''t'' ''u1'' ex_linked =
      (None, ex_linked\<lparr>trace := [Fetch (lookup_request ''t'' ''acc-1''), Sleep (Some 15000)]\<rparr>)"
    by (simp add: connect_lookup_def u i String_js_def metaFetch_once fc ex_always_202_def
                  fetch_request_lookup rd emit_def t)
       (simp add: ex_response_def)
  show ?thesis
    by (simp add: connectBroker_def requireAuth_def destructure_def ex_call_def
                  ex_connect_data_object_login_def lk connect_create_def create_body_def String_js_def
                  create_catch_no_string_form ex_always_202_def)
qed

text \<open>
  C9 (amended): for an authenticated caller with the three required inputs whose stored
  record holds an account identifier (with string form \<open>ident\<close>), every failure of the
  no-retry lookup is swallowed. When the login has a string form, the create request
  follows; in particular when the lookup is answered 202 the trace is the lookup, the
  wait the 202 asks for, and then the create request: the single attempt is used up,
  the still-processing error is dropped and a new account is requested. When the login
  has no string form, nothing is sent after the failed lookup and Connect fails with
  the internal failure that carries the engine's message.
\<close>

theorem C9_lookup_failure_recreates:
  assumes auth: "call_auth request = Some a"
    and args: "truthy (own_prop (call_data request) ''brokerServer'')"
              "truthy (own_prop (call_data request) ''mtLogin'')"
              "truthy (own_prop (call_data request) ''mtPassword'')"
    and link: "users w (auth_uid a) = Some d" "truthy (d ''metaApiAccountId'')"
              "String_js (d ''metaApiAccountId'') = Inr ident"
  shows "(\<forall>e w1 login.
            metaFetch up (account_url ident) token retries0 w = (Inl e, w1) \<and>
            String_js (own_prop (call_data request) ''mtLogin'') = Inr login \<longrightarrow>
            (\<exists>es. new_events w (snd (connectBroker up token now request w)) =
                    new_events w w1 @
                    Fetch (create_request token (own_prop (call_data request) ''brokerServer'') login
                             (own_prop (call_data request) ''mtPassword'')
                             (own_prop (call_data request) ''platform'')) # es)) \<and>
         (\<forall>res login.
            up (fetch_count w) = Responded res \<and> res_status res = 202 \<and>
            String_js (own_prop (call_data request) ''mtLogin'') = Inr login \<longrightarrow>
            (\<exists>es. new_events w (snd (connectBroker up token now request w)) =
                    Fetch (lookup_request token ident) #
                    Sleep (retry_delay res) #
                    Fetch (create_request token (own_prop (call_data request) ''brokerServer'') login
                             (own_prop (call_data request) ''mtPassword'')
                             (own_prop (call_data request) ''platform'')) # es)) \<and>
         (\<forall>e w1 x.
            metaFetch up (account_url ident) token retries0 w = (Inl e, w1) \<and>
            String_js (own_prop (call_data request) ''mtLogin'') = Inl x \<longrightarrow>
            connectBroker up token now request w =
              (Inl (HttpsError ''internal'' ''Error MetaApi: Cannot convert object to primitive value''),
               w1))"
proof -
  let ?bs = "own_prop (call_data request) ''brokerServer''"
  let ?ml = "own_prop (call_data request) ''mtLogin''"
  let ?mp = "own_prop (call_data request) ''mtPassword''"
  let ?pf = "own_prop (call_data request) ''platform''"
  let ?url = "account_url ident"
  have cb: "connectBroker up token now request w =
        connect_create up token now request (auth_uid a) ?bs ?ml ?mp ?pf w1"
    if mf: "metaFetch up ?url token retries0 w = (Inl e, w1)" for e w1
  proof -
    have lk: "connect_lookup up token (auth_uid a) w = (None, w1)"
      using link mf by (simp add: connect_lookup_def)
    show ?thesis
      using auth args by (simp add: connectBroker_def requireAuth_def destructure_args lk)
  qed
  have fall: "\<exists>es. new_events w (snd (connectBroker up token now request w)) =
                    new_events w w1 @ Fetch (create_request token ?bs login ?mp ?pf) # es"
    if mf: "metaFetch up ?url token retries0 w = (Inl e, w1)" and lg: "String_js ?ml = Inr login"
    for e w1 login
  proof -
    obtain b where b: "create_body ?bs ?ml ?mp ?pf = Inr b"
      by (simp add: create_body_login[OF lg])
    obtain es0 where es0: "trace w1 = trace w @ es0"
      using metaFetch_trace[of up ?url token retries0 w] mf by auto
    obtain es where "trace (snd (connect_create up token now request (auth_uid a) ?bs ?ml ?mp ?pf w1)) =
          trace w1 @ Fetch (create_request token ?bs login ?mp ?pf) # es"
      using connect_create_trace[OF b] unfolding fetch_request_create[OF lg b] by blast
    with es0 cb[OF mf] show ?thesis by (auto simp: new_events_def)
  qed
  have retry: "\<exists>es. new_events w (snd (connectBroker up token now request w)) =
                    Fetch (lookup_request token ident) # Sleep (retry_delay res) #
                    Fetch (create_request token ?bs login ?mp ?pf) # es"
    if r: "up (fetch_count w) = Responded res" "res_status res = 202" and lg: "String_js ?ml = Inr login"
    for res login
  proof -
    have mf: "metaFetch up ?url token retries0 w =
        (Inl still_processing,
         emit (Sleep (retry_delay res)) (emit (Fetch (lookup_request token ident)) w))"
      using r by (simp add: metaFetch_once fetch_request_lookup)
    from fall[OF mf lg] show ?thesis by (simp add: new_events_def)
  qed
  have nologin: "connectBroker up token now request w =
              (Inl (HttpsError ''internal'' ''Error MetaApi: Cannot convert object to primitive value''), w1)"
    if mf: "metaFetch up ?url token retries0 w = (Inl e, w1)" and lg: "String_js ?ml = Inl x"
    for e w1 x
    using String_js_Inl[OF lg] lg
    by (simp add: cb[OF mf] connect_create_def create_body_def create_catch_no_string_form)
  from fall retry nologin show ?thesis by blast
qed

text \<open>The theorem on a linked user whose lookup is answered 202.\<close>

theorem C9_lookup_failure_recreates_witness:
  "call_auth (ex_call ex_connect_data) = Some \<lparr>auth_uid = ''u1'', auth_email = Some ''a@b.c''\<rparr> \<and>
   users ex_linked ''u1'' = Some ex_doc \<and> truthy (ex_doc ''metaApiAccountId'') \<and>
   String_js (ex_doc ''metaApiAccountId'') = Inr ''acc-1'' \<and>
   ex_202_then_account (fetch_count ex_linked) = Responded (ex_response 202 None (Malformed [])) \<and>
   res_status (ex_response 202 None (Malformed [])) = 202 \<and>
   String_js (own_prop (call_data (ex_call ex_connect_data)) ''mtLogin'') = Inr ''12345'' \<and>
   (\<exists>es. new_events ex_linked
            (snd (connectBroker ex_202_then_account ''t'' 200 (ex_call ex_connect_data) ex_linked)) =
          Fetch (lookup_request ''t'' ''acc-1'') # Sleep (Some 5000) #
          Fetch (create_request ''t'' (Some (JStr ''Xyz-Live'')) ''12345''
                   (Some (JStr ''p'')) (Some (JStr ''mt5''))) # es)"
proof -
  let ?res = "ex_response 202 None (Malformed [])"
  have auth: "call_auth (ex_call ex_connect_data) = Some \<lparr>auth_uid = ''u1'', auth_email = Some ''a@b.c''\<rparr>"
    by (simp add: ex_call_def)
  have args: "truthy (own_prop (call_data (ex_call ex_connect_data)) ''brokerServer'')"
              "truthy (own_prop (call_data (ex_call ex_connect_data)) ''mtLogin'')"
              "truthy (own_prop (call_data (ex_call ex_connect_data)) ''mtPassword'')"
    by (simp_all add: ex_call_def ex_connect_data_def)
  have link: "users ex_linked (auth_uid \<lparr>auth_uid = ''u1'', auth_email = Some ''a@b.c''\<rparr>) = Some ex_doc"
     "truthy (ex_doc ''metaApiAccountId'')"
     "String_js (ex_doc ''metaApiAccountId'') = Inr ''acc-1''"
    by (simp_all add: ex_linked_def ex_doc_def String_js_def)
  have r: "ex_202_then_account (fetch_count ex_linked) = Responded ?res"
    by (simp add: ex_202_then_account_def fetch_count_def ex_linked_def)
  have r2: "res_status ?res = 202" by (simp add: ex_response_def)
  have rd: "retry_delay ?res = Some 5000"
    by (simp add: retry_delay_def parseInt_def is_space_def is_digit_def digits_val_def digit_val_def
                  ex_response_def)
  have vals:
     "own_prop (call_data (ex_call ex_connect_data)) ''brokerServer'' = Some (JStr ''Xyz-Live'')"
     "own_prop (call_data (ex_call ex_connect_data)) ''mtLogin'' = Some (JStr ''12345'')"
     "own_prop (call_data (ex_call ex_connect_data)) ''mtPassword'' = Some (JStr ''p'')"
     "own_prop (call_data (ex_call ex_connect_data)) ''platform'' = Some (JStr ''mt5'')"
    by (simp_all add: ex_call_def ex_connect_data_def)
  have lg: "String_js (own_prop (call_data (ex_call ex_connect_data)) ''mtLogin'') = Inr ''12345''"
    by (simp add: vals String_js_def)
  note th = C9_lookup_failure_recreates[where request="ex_call ex_connect_data" and w=ex_linked
         and d=ex_doc and up=ex_202_then_account and token="''t''" and now=200 and ident="''acc-1''",
         OF auth args link]
  from th[THEN conjunct2, THEN conjunct1, rule_format, of ?res "''12345''"] r r2 lg rd
  have "\<exists>es. new_events ex_linked
            (snd (connectBroker ex_202_then_account ''t'' 200 (ex_call ex_connect_data) ex_linked)) =
          Fetch (lookup_request ''t'' ''acc-1'') # Sleep (Some 5000) #
          Fetch (create_request ''t'' (Some (JStr ''Xyz-Live'')) ''12345''
                   (Some (JStr ''p'')) (Some (JStr ''mt5''))) # es"
    by (simp add: vals)
  with auth link r r2 lg show ?thesis by simp
qed







subsection \<open>Metrics\<close>





subsection \<open>TradeHistory\<close>

lemma trades_deals_url_neq: "trades_url i s e \<noteq> deals_url i' s' e'"
  by (simp add: trades_url_def deals_url_def URLS_metastats_def URLS_client_def)

lemma fetch_request_trades:
  "fetch_request (trades_url i s e) token no_opts = trades_request token i s e"
  by (simp add: fetch_request_def trades_request_def no_opts_def method_of_def body_of_def
                trades_url_def URLS_metastats_def REGION_def)

lemma fetch_request_deals:
  "fetch_request (deals_url i s e) token no_opts = deals_request token i s e"
  by (simp add: fetch_request_def deals_request_def no_opts_def method_of_def body_of_def
                deals_url_def URLS_client_def REGION_def)

lemma url_parts_Inr:
  "js_to_string ident = Inr i \<Longrightarrow> String_js start = Inr s \<Longrightarrow> String_js end' = Inr e \<Longrightarrow>
   url_parts ident start end' = Inr (i, s, e)"
  by (simp add: url_parts_def)

lemma url_parts_Inl:
  assumes "(\<exists>x. js_to_string ident = Inl x) \<or> (\<exists>x. String_js start = Inl x) \<or> (\<exists>x. String_js end' = Inl x)"
  shows "url_parts ident start end' = Inl cannot_convert"
proof -
  have "\<exists>x. url_parts ident start end' = Inl x"
    using assms by (auto simp: url_parts_def split: sum.splits)
  then obtain x where x: "url_parts ident start end' = Inl x" ..
  then have "x = cannot_convert"
    by (auto simp: url_parts_def split: sum.splits dest: no_string_form String_js_Inl)
  with x show ?thesis by simp
qed

lemma trades_primary_trace:
  assumes "url_parts ident start end' = Inr (i, s, e)"
  shows "\<exists>es. trace (snd (trades_primary up token ident start end' w)) =
               trace w @ Fetch (trades_request token i s e) # es \<and>
        (\<forall>r. Fetch r \<in> set es \<longrightarrow> req_url r = trades_url i s e)"
proof -
  let ?url = "trades_url i s e"
  obtain es where "trace (snd (metaFetch up ?url token no_opts w)) = trace w @ Fetch (fetch_request ?url token no_opts) # es"
      "\<forall>r. Fetch r \<in> set es \<longrightarrow> r = fetch_request ?url token no_opts"
    using metaFetch_trace by blast
  then show ?thesis
    unfolding fetch_request_trades[symmetric]
    by (intro exI[of _ es])
       (auto simp: trades_primary_def assms fetch_request_def split: prod.splits sum.splits)
qed

lemma trades_secondary_trace:
  assumes "url_parts ident start end' = Inr (i, s, e)"
  shows "\<exists>es. trace (snd (trades_secondary up token ident start end' w)) =
           trace w @ Fetch (deals_request token i s e) # es"
  using metaFetch_trace[of up "deals_url i s e" token no_opts w]
  by (auto simp: trades_secondary_def assms fetch_request_deals split: prod.splits sum.splits)

text \<open>
  C7, as stated, has the secondary source queried whenever the primary call raises.
  With the start date \<^verbatim>\<open>{"toString": 1}\<close> the first \<^verbatim>\<open>try\<close> block raises while it builds
  its address, the second block raises in the same way, no request at all is sent, and
  TradeHistory fails with the message of that conversion.
\<close>

theorem C7_counterexample:
  "getAccountId ''u1'' ex_linked = Inr (JStr ''acc-1'') \<and>
   trades_primary (ex_always_ok (JArr [])) ''t'' (JStr ''acc-1'')
      (date_arg ex_trades_data_object_start ''startDate'' ''2025-01-01T00:00:00.000Z'')
      (date_arg ex_trades_data_object_start ''endDate'' ''2026-01-01T00:00:00.000Z'') ex_linked =
     (Inl (TypeError ''Cannot convert object to primitive value''), ex_linked) \<and>
   getTrades (ex_always_ok (JArr [])) ''t'' ''2026-01-01T00:00:00.000Z'' ''2025-01-01T00:00:00.000Z''
      (ex_call ex_trades_data_object_start) ex_linked =
     (Inl (HttpsError ''internal'' ''Cannot convert object to primitive value''), ex_linked) \<and>
   trace ex_linked = []"
proof -
  have l: "getAccountId ''u1'' ex_linked = Inr (JStr ''acc-1'')"
    by (simp add: getAccountId_def ex_linked_def ex_doc_def)
  have s: "date_arg ex_trades_data_object_start ''startDate'' ''2025-01-01T00:00:00.000Z'' =
             Some (JObj [(''toString'', JNum ''1'')])"
    by (simp add: date_arg_def ex_trades_data_object_start_def js_or_def)
  have u: "url_parts (JStr ''acc-1'') (Some (JObj [(''toString'', JNum ''1'')])) e = Inl cannot_convert" for e
    by (simp add: url_parts_def String_js_def)
  have p: "trades_primary (ex_always_ok (JArr [])) ''t'' (JStr ''acc-1'')
      (date_arg ex_trades_data_object_start ''startDate'' ''2025-01-01T00:00:00.000Z'')
      (date_arg ex_trades_data_object_start ''endDate'' ''2026-01-01T00:00:00.000Z'') ex_linked =
     (Inl (TypeError ''Cannot convert object to primitive value''), ex_linked)"
    by (simp add: trades_primary_def s u) (simp add: cannot_convert_def)
  have g: "getTrades (ex_always_ok (JArr [])) ''t'' ''2026-01-01T00:00:00.000Z'' ''2025-01-01T00:00:00.000Z''
      (ex_call ex_trades_data_object_start) ex_linked =
     (Inl (HttpsError ''internal'' ''Cannot convert object to primitive value''), ex_linked)"
    using l s
    by (simp add: getTrades_def requireAuth_def ex_call_def Let_def trades_primary_def
                  trades_secondary_def u)
       (simp add: cannot_convert_def)
  from l p g show ?thesis by (simp add: ex_linked_def)
qed

text \<open>
  C7 (amended): for an authenticated, linked caller, let \<open>r1\<close> be the outcome of the
  first \<^verbatim>\<open>try\<close> block (building the historical-trades address, the request, and the
  reading of its result) and \<open>r2\<close> that of the second (history-deals). When the first
  block does not raise, its result and world are the operation's; the operation fails
  if and only if both blocks raised, and then with the internal failure carrying the
  second block's message. When the identifier and the two dates have string forms, the
  operation starts with the historical-trades request, and the history-deals request
  is sent if and only if the first block raised. When one of
  them has none, both blocks raise before any request is sent, and the operation fails
  with the message of the conversion.
\<close>

theorem C7_trades_fallback:
  assumes auth: "call_auth request = Some a"
    and linked: "getAccountId (auth_uid a) w = Inr ident"
    and start: "start = date_arg (call_data request) ''startDate'' ago"
    and end': "end' = date_arg (call_data request) ''endDate'' now"
    and primary: "trades_primary up token ident start end' w = (r1, w1)"
    and secondary: "trades_secondary up token ident start end' w1 = (r2, w2)"
  shows "(\<not> isl r1 \<longrightarrow> getTrades up token now ago request w = (r1, w1)) \<and>
         (isl (fst (getTrades up token now ago request w)) \<longleftrightarrow> isl r1 \<and> isl r2) \<and>
         (isl r1 \<and> isl r2 \<longrightarrow>
            getTrades up token now ago request w = (Inl (HttpsError ''internal'' (message (projl r2))), w2)) \<and>
         (isl r1 \<and> \<not> isl r2 \<longrightarrow> getTrades up token now ago request w = (r2, w2)) \<and>
         (\<forall>i s e. js_to_string ident = Inr i \<and> String_js start = Inr s \<and> String_js end' = Inr e \<longrightarrow>
            (\<exists>es. new_events w (snd (getTrades up token now ago request w)) =
                    Fetch (trades_request token i s e) # es) \<and>
            (isl r1 \<longleftrightarrow>
               Fetch (deals_request token i s e)
                 \<in> set (new_events w (snd (getTrades up token now ago request w))))) \<and>
         ((\<exists>x. js_to_string ident = Inl x) \<or> (\<exists>x. String_js start = Inl x) \<or>
          (\<exists>x. String_js end' = Inl x) \<longrightarrow>
            getTrades up token now ago request w =
              (Inl (HttpsError ''internal'' ''Cannot convert object to primitive value''), w))"
proof -
  have gt: "getTrades up token now ago request w =
      (case r1 of
         Inr payload \<Rightarrow> (Inr payload, w1)
       | Inl e1 \<Rightarrow>
           (case r2 of Inr payload \<Rightarrow> (Inr payload, w2)
                     | Inl err \<Rightarrow> (Inl (HttpsError ''internal'' (message err)), w2)))"
    using auth linked primary secondary
    by (simp add: getTrades_def requireAuth_Some Let_def start[symmetric] end'[symmetric]
             split: sum.splits)
  have a: "\<not> isl r1 \<longrightarrow> getTrades up token now ago request w = (r1, w1)"
    by (cases r1) (simp_all add: gt)
  have b: "isl (fst (getTrades up token now ago request w)) \<longleftrightarrow> isl r1 \<and> isl r2"
    by (cases r1; cases r2) (simp_all add: gt)
  have c: "isl r1 \<and> isl r2 \<longrightarrow>
            getTrades up token now ago request w = (Inl (HttpsError ''internal'' (message (projl r2))), w2)"
    by (cases r1; cases r2) (simp_all add: gt)
  have d: "isl r1 \<and> \<not> isl r2 \<longrightarrow> getTrades up token now ago request w = (r2, w2)"
    by (cases r1; cases r2) (simp_all add: gt)
  have e: "(\<exists>es. new_events w (snd (getTrades up token now ago request w)) =
                    Fetch (trades_request token i s e) # es) \<and>
           (isl r1 \<longleftrightarrow>
               Fetch (deals_request token i s e)
                 \<in> set (new_events w (snd (getTrades up token now ago request w))))"
    if h: "js_to_string ident = Inr i \<and> String_js start = Inr s \<and> String_js end' = Inr e" for i s e
  proof -
    have up: "url_parts ident start end' = Inr (i, s, e)"
      using h by (simp add: url_parts_Inr)
    obtain es0 where es0: "trace w1 = trace w @ Fetch (trades_request token i s e) # es0"
        "\<forall>r. Fetch r \<in> set es0 \<longrightarrow> req_url r = trades_url i s e"
      using trades_primary_trace[OF up, of up token w] primary by auto
    define es1 where "es1 = Fetch (trades_request token i s e) # es0"
    have tu: "req_url (trades_request token i s e) = trades_url i s e"
      using fetch_request_trades[of i s e token, symmetric] by (simp add: fetch_request_def)
    have es1: "trace w1 = trace w @ es1" "\<forall>r. Fetch r \<in> set es1 \<longrightarrow> req_url r = trades_url i s e"
      using es0 tu by (auto simp: es1_def)
    obtain es2 where es2: "trace w2 = trace w1 @ Fetch (deals_request token i s e) # es2"
      using trades_secondary_trace[OF up, of up token w1] secondary by auto
    have du: "req_url (deals_request token i s e) = deals_url i s e"
      using fetch_request_deals[of i s e token, symmetric] by (simp add: fetch_request_def)
    have notin: "Fetch (deals_request token i s e) \<notin> set es1"
      using es1(2) trades_deals_url_neq[of i s e i s e] du by auto
    show ?thesis
    proof (cases r1)
      case (Inr payload)
      with es1(1) notin show ?thesis by (simp add: gt new_events_def es1_def)
    next
      case (Inl e1)
      have "snd (getTrades up token now ago request w) = w2"
        using Inl by (simp add: gt split: sum.splits)
      with Inl es1(1) es2 show ?thesis by (simp add: new_events_def es1_def)
    qed
  qed
  have f: "getTrades up token now ago request w =
              (Inl (HttpsError ''internal'' ''Cannot convert object to primitive value''), w)"
    if h: "(\<exists>x. js_to_string ident = Inl x) \<or> (\<exists>x. String_js start = Inl x) \<or>
           (\<exists>x. String_js end' = Inl x)"
  proof -
    have up: "url_parts ident start end' = Inl cannot_convert"
      using h by (rule url_parts_Inl)
    have "r1 = Inl cannot_convert" "w1 = w"
      using primary by (simp_all add: trades_primary_def up)
    moreover from this have "r2 = Inl cannot_convert" "w2 = w"
      using secondary by (simp_all add: trades_secondary_def up)
    ultimately show ?thesis by (simp add: gt cannot_convert_def)
  qed
  from a b c d e f show ?thesis by blast
qed

text \<open>The theorem on a primary source answering 500 and a secondary returning deals.\<close>

theorem C7_trades_fallback_witness:
  "call_auth (ex_call JNull) = Some \<lparr>auth_uid = ''u1'', auth_email = Some ''a@b.c''\<rparr> \<and>
   getAccountId ''u1'' ex_linked = Inr (JStr ''acc-1'') \<and>
   date_arg JNull ''startDate'' ''2025-01-01T00:00:00.000Z'' = Some (JStr ''2025-01-01T00:00:00.000Z'') \<and>
   date_arg JNull ''endDate'' ''2026-01-01T00:00:00.000Z'' = Some (JStr ''2026-01-01T00:00:00.000Z'') \<and>
   isl (fst (trades_primary ex_500_then_deals ''t'' (JStr ''acc-1'')
               (Some (JStr ''2025-01-01T00:00:00.000Z'')) (Some (JStr ''2026-01-01T00:00:00.000Z''))
               ex_linked)) \<and>
   fst (getTrades ex_500_then_deals ''t'' ''2026-01-01T00:00:00.000Z'' ''2025-01-01T00:00:00.000Z''
          (ex_call JNull) ex_linked) =
     Inr (JObj [(''trades'', JArr [JNum ''7'']), (''source'', JStr ''client'')]) \<and>
   Fetch (deals_request ''t'' ''acc-1'' ''2025-01-01T00:00:00.000Z'' ''2026-01-01T00:00:00.000Z'')
     \<in> set (trace (snd (getTrades ex_500_then_deals ''t'' ''2026-01-01T00:00:00.000Z''
                            ''2025-01-01T00:00:00.000Z'' (ex_call JNull) ex_linked)))"
proof -
  let ?now = "''2026-01-01T00:00:00.000Z''"
  let ?ago = "''2025-01-01T00:00:00.000Z''"
  let ?u1 = "trades_url ''acc-1'' ?ago ?now"
  let ?u2 = "deals_url ''acc-1'' ?ago ?now"
  let ?w1 = "emit (Fetch (fetch_request ?u1 ''t'' no_opts)) ex_linked"
  let ?w2 = "emit (Fetch (fetch_request ?u2 ''t'' no_opts)) ?w1"
  have auth: "call_auth (ex_call JNull) = Some \<lparr>auth_uid = ''u1'', auth_email = Some ''a@b.c''\<rparr>"
    by (simp add: ex_call_def)
  have linked: "getAccountId (auth_uid \<lparr>auth_uid = ''u1'', auth_email = Some ''a@b.c''\<rparr>) ex_linked
                  = Inr (JStr ''acc-1'')"
    by (simp add: getAccountId_def ex_linked_def ex_doc_def)
  have start: "Some (JStr ?ago) = date_arg (call_data (ex_call JNull)) ''startDate'' ?ago"
    and end': "Some (JStr ?now) = date_arg (call_data (ex_call JNull)) ''endDate'' ?now"
    by (simp_all add: date_arg_def ex_call_def js_or_def)
  have fc: "fetch_count ex_linked = 0" by (simp add: fetch_count_def ex_linked_def)
  have up: "url_parts (JStr ''acc-1'') (Some (JStr ?ago)) (Some (JStr ?now)) = Inr (''acc-1'', ?ago, ?now)"
    by (simp add: url_parts_def String_js_def)
  have primary: "trades_primary ex_500_then_deals ''t'' (JStr ''acc-1'') (Some (JStr ?ago)) (Some (JStr ?now)) ex_linked
       = (Inl (Error ''HTTP 500'' (Some 500)), ?w1)"
    by (simp add: trades_primary_def up metaFetch_def loop_error fc ex_500_then_deals_def res_ok_def
          not_ok_error_def error_msg_def show_nat.simps String_js_def ex_response_def)
  have secondary: "trades_secondary ex_500_then_deals ''t'' (JStr ''acc-1'') (Some (JStr ?ago)) (Some (JStr ?now)) ?w1
       = (Inr (JObj [(''trades'', JArr [JNum ''7'']), (''source'', JStr ''client'')]), ?w2)"
    by (simp add: trades_secondary_def up metaFetch_def loop_ok fc ex_500_then_deals_def res_ok_def
          get_prop_def js_or_def ex_response_def)
  have tr: "trace ex_linked = []" by (simp add: ex_linked_def)
  note th = C7_trades_fallback[where request="ex_call JNull" and w=ex_linked and up=ex_500_then_deals
        and token="''t''" and now="?now" and ago="?ago" and start="Some (JStr ?ago)"
        and end'="Some (JStr ?now)",
        OF auth linked start end' primary secondary]
  have m: "Fetch (deals_request ''t'' ''acc-1'' ?ago ?now)
              \<in> set (new_events ex_linked (snd (getTrades ex_500_then_deals ''t'' ?now ?ago (ex_call JNull) ex_linked)))"
    using th[THEN conjunct2, THEN conjunct2, THEN conjunct2, THEN conjunct2, THEN conjunct1,
             rule_format, of "''acc-1''" ?ago ?now]
    by (simp add: String_js_def)
  have g: "getTrades ex_500_then_deals ''t'' ?now ?ago (ex_call JNull) ex_linked =
           (Inr (JObj [(''trades'', JArr [JNum ''7'']), (''source'', JStr ''client'')]), ?w2)"
    using th[THEN conjunct2, THEN conjunct2, THEN conjunct2, THEN conjunct1] by simp
  from m g show ?thesis
    using auth linked start[symmetric] end'[symmetric] primary
    by (simp add: new_events_def tr ex_call_def)
qed

section \<open>The two implementations compared\<close>


lemma sim_emit [simp]:
  "sim w w' \<Longrightarrow> sim (emit (Fetch r) w) (emit (Fetch r') w')"
  "sim w w' \<Longrightarrow> sim (emit (Sleep d) w) (emit (Sleep d') w')"
  by (simp_all add: sim_def)


lemma lib_rel_refl [simp]: "lib_rel up r r"
  by (simp add: lib_rel_def)







































end
